theory Spec2Isabelle
  imports Complex_Main
begin

section \<open>Utilities\<close>

text \<open>
  Python's \<^verbatim>\<open>str(n)\<close> for an integer, and the format specifications
  \<^verbatim>\<open>{n:01d}\<close> and \<^verbatim>\<open>{n:02d}\<close>: decimal digits, padded with zeros
  after the sign up to the given width.
\<close>

definition digit_char :: "nat \<Rightarrow> char" where
  "digit_char n = ''0123456789'' ! (n mod 10)"

fun digits10 :: "nat \<Rightarrow> string" where
  "digits10 n = (if n < 10 then [digit_char n] else digits10 (n div 10) @ [digit_char (n mod 10)])"

declare digits10.simps [simp del]

definition str_int :: "int \<Rightarrow> string" where
  "str_int n = (if n < 0 then ''-'' @ digits10 (nat (- n)) else digits10 (nat n))"

definition format_0d :: "nat \<Rightarrow> int \<Rightarrow> string" where
  "format_0d width n =
     (let sign = (if n < 0 then ''-'' else '''');
          ds = digits10 (nat \<bar>n\<bar>)
      in sign @ replicate (width - length sign - length ds) (CHR ''0'') @ ds)"

text \<open>\<^verbatim>\<open>seconds_to_hhmmss\<close>: Python's \<^verbatim>\<open>//\<close> and \<^verbatim>\<open>%\<close> round towards minus
  infinity, as \<open>div\<close> and \<open>mod\<close> on \<open>int\<close> do.\<close>

definition seconds_to_hhmmss :: "int \<Rightarrow> string" where
  "seconds_to_hhmmss total0 =
     (let total = (if total0 < 0 then 0 else total0);
          h = total div 3600;
          m = (total mod 3600) div 60;
          s = total mod 60
      in if h > 0 then format_0d 1 h @ '':'' @ format_0d 2 m @ '':'' @ format_0d 2 s
         else format_0d 2 m @ '':'' @ format_0d 2 s)"

datatype pose = Pose (seconds: int)

definition label :: "pose \<Rightarrow> string" where
  "label p = seconds_to_hhmmss (seconds p)"

datatype error =
    IndexError | KeyError | ValueError | AttributeError | OSError
  | StructError | RecursionError | BadZipFile | RuntimeError

text \<open>Python list indexing: a negative index counts from the end, an index out of range
  raises \<^verbatim>\<open>IndexError\<close>.\<close>

definition py_index :: "'a list \<Rightarrow> int \<Rightarrow> error + 'a" where
  "py_index xs i =
     (if 0 \<le> i \<and> i < int (length xs) then Inr (xs ! nat i)
      else if i < 0 \<and> - int (length xs) \<le> i then Inr (xs ! nat (int (length xs) + i))
      else Inl IndexError)"

section \<open>Timer engine\<close>

text \<open>
  The two signals of \<^verbatim>\<open>TimerEngine\<close>. Every method returns the engine with the
  signals it emitted, in the order of emission. The reading of \<^verbatim>\<open>time.monotonic()\<close>
  is an argument of the methods that take it, a float in the source and a real number
  here, so that the difference of two readings is taken without rounding; \<open>last_ts\<close> is the field \<^verbatim>\<open>_last\<close>, and \<open>timer_active\<close> is the state of the
  engine's \<^verbatim>\<open>QTimer\<close>.
\<close>

datatype signal = Tick_signal int | Finished_signal

text \<open>
  \<^verbatim>\<open>tick_signal\<close> is a \<^verbatim>\<open>pyqtSignal(int)\<close>: its argument is a C \<^verbatim>\<open>int\<close> of 32 bits.
  A value within the range of that type reaches the slot as it is; the model wraps a
  value outside the range, and the properties of the ticks below are stated for
  durations within it.
\<close>

definition c_int :: "int \<Rightarrow> int" where
  "c_int n = (n + 2147483648) mod 4294967296 - 2147483648"

record timer_engine =
  remaining :: int
  running :: bool
  last_ts :: real
  timer_active :: bool

definition engine_init :: timer_engine where
  "engine_init = \<lparr>remaining = 0, running = False, last_ts = 0, timer_active = False\<rparr>"

definition engine_start :: "real \<Rightarrow> int \<Rightarrow> timer_engine \<Rightarrow> timer_engine \<times> signal list" where
  "engine_start now secs e =
     (e\<lparr>remaining := secs, running := True, last_ts := now, timer_active := True\<rparr>,
      [Tick_signal (c_int secs)])"

definition engine_stop :: "timer_engine \<Rightarrow> timer_engine" where
  "engine_stop e = e\<lparr>running := False, timer_active := False\<rparr>"

text \<open>Python's \<^verbatim>\<open>int(x)\<close> on a float truncates towards zero.\<close>

definition py_int :: "real \<Rightarrow> int" where
  "py_int x = (if x < 0 then - \<lfloor>- x\<rfloor> else \<lfloor>x\<rfloor>)"

definition engine_tick :: "real \<Rightarrow> timer_engine \<Rightarrow> timer_engine \<times> signal list" where
  "engine_tick now e =
     (if \<not> running e then (e, [])
      else
        let dt = py_int (now - last_ts e) in
        if dt \<le> 0 then (e, [])
        else
          let e1 = e\<lparr>last_ts := now\<rparr>;
              e2 = e1\<lparr>remaining := remaining e1 - dt\<rparr>
          in if remaining e2 \<le> 0
             then (e2\<lparr>running := False, timer_active := False\<rparr>,
                   [Tick_signal (c_int (remaining e2)), Finished_signal])
             else (e2, [Tick_signal (c_int (remaining e2))]))"

text \<open>The timer's timeout calls \<^verbatim>\<open>_tick\<close> while the timer is active.\<close>

definition timer_timeout :: "real \<Rightarrow> timer_engine \<Rightarrow> timer_engine \<times> signal list" where
  "timer_timeout now e = (if timer_active e then engine_tick now e else (e, []))"

text \<open>An uninterrupted run: the timeouts at the given clock readings, nothing else;
  and a session, which is \<^verbatim>\<open>start\<close> on a new engine followed by such a run.\<close>

fun engine_run :: "real list \<Rightarrow> timer_engine \<Rightarrow> timer_engine \<times> signal list" where
  "engine_run [] e = (e, [])"
| "engine_run (now # nows) e =
     (let (e1, s1) = timer_timeout now e;
          (e2, s2) = engine_run nows e1
      in (e2, s1 @ s2))"

definition engine_session :: "real \<Rightarrow> int \<Rightarrow> real list \<Rightarrow> timer_engine \<times> signal list" where
  "engine_session t0 d nows =
     (let (e1, s1) = engine_start t0 d engine_init;
          (e2, s2) = engine_run nows e1
      in (e2, s1 @ s2))"

text \<open>Sampling without stalls: the clock never goes back, and less than one second
  passes between two consecutive timeouts (the timer's interval is 200 ms).\<close>

fun steady :: "real \<Rightarrow> real list \<Rightarrow> bool" where
  "steady prev [] = True"
| "steady prev (t # ts) = (prev \<le> t \<and> t < prev + 1 \<and> steady t ts)"

section \<open>Paths, files and archives\<close>

text \<open>
  A \<^verbatim>\<open>pathlib.Path\<close> is the list of its parts (POSIX flavour), none of which holds a
  separator. The file system maps a path to what is there: a regular file, with its
  bytes and the year of its modification time in local time, or a directory, with that
  year. \<^verbatim>\<open>Path(s)\<close> splits a string at the separator and drops empty parts and
  \<^verbatim>\<open>.\<close> parts; \<^verbatim>\<open>name\<close> is the last part (empty when there is none);
  \<^verbatim>\<open>suffix\<close> is the part of the name from its last dot, when that dot is neither the
  first nor the last character; \<^verbatim>\<open>with_suffix\<close> replaces the suffix of the name and
  raises \<^verbatim>\<open>ValueError\<close> when the name is empty.
\<close>

type_synonym path = "string list"
type_synonym bytes = "char list"

datatype node = File bytes int | Dir int

type_synonym files = "path \<rightharpoonup> node"

definition path_exists :: "files \<Rightarrow> path \<Rightarrow> bool" where
  "path_exists fs p = (fs p \<noteq> None)"

fun split_on :: "char \<Rightarrow> string \<Rightarrow> string list" where
  "split_on c [] = [[]]"
| "split_on c (x # xs) =
     (if x = c then [] # split_on c xs
      else (case split_on c xs of [] \<Rightarrow> [[x]] | w # ws \<Rightarrow> (x # w) # ws))"

definition Path :: "string \<Rightarrow> path" where
  "Path s = filter (\<lambda>part. part \<noteq> [] \<and> part \<noteq> ''.'') (split_on (CHR ''/'') s)"

definition path_name :: "path \<Rightarrow> string" where
  "path_name p = (if p = [] then [] else last p)"



text \<open>\<^verbatim>\<open>dir / name\<close> for a name that is one part, or empty.\<close>

definition path_join :: "path \<Rightarrow> string \<Rightarrow> path" where
  "path_join dir name = (if name = [] then dir else dir @ [name])"


text \<open>\<^verbatim>\<open>str.lower()\<close> on a string of ASCII characters; the concrete inputs below use
  it where the source calls \<^verbatim>\<open>str.lower()\<close>.\<close>

definition lower_char :: "char \<Rightarrow> char" where
  "lower_char c =
     (case map_of (zip ''ABCDEFGHIJKLMNOPQRSTUVWXYZ'' ''abcdefghijklmnopqrstuvwxyz'') c of
        None \<Rightarrow> c | Some l \<Rightarrow> l)"

definition ascii_lower :: "string \<Rightarrow> string" where
  "ascii_lower s = map lower_char s"

text \<open>
  A zip container, as \<^verbatim>\<open>zipfile.ZipFile\<close> shows it, is the list of its entries in
  the order they were written. An entry holds its bytes, or it is one that cannot be
  opened, or one that opens and whose read raises. Looking a name up gives the last
  entry of that name, as \<^verbatim>\<open>ZipFile.getinfo\<close> does; \<^verbatim>\<open>ZipFile.read\<close> raises
  \<^verbatim>\<open>KeyError\<close> for a name that is not there.
\<close>

datatype entry = Data bytes | Bad_open error | Bad_read error

type_synonym zip = "(string \<times> entry) list"

definition namelist :: "zip \<Rightarrow> string list" where
  "namelist zf = map fst zf"

definition getinfo :: "zip \<Rightarrow> string \<Rightarrow> entry option" where
  "getinfo zf name = map_of (rev zf) name"

definition zip_read :: "zip \<Rightarrow> string \<Rightarrow> error + bytes" where
  "zip_read zf name =
     (case getinfo zf name of
        None \<Rightarrow> Inl KeyError
      | Some (Data b) \<Rightarrow> Inr b
      | Some (Bad_open e) \<Rightarrow> Inl e
      | Some (Bad_read e) \<Rightarrow> Inl e)"

text \<open>
  The values of \<^verbatim>\<open>json.loads\<close>. An object is the list of its items in insertion order,
  each key once; assigning to a key keeps the place of a key that is there and appends
  a new one.
\<close>

datatype json =
    JNull
  | JBool bool
  | JInt int
  | JFloat real
  | JStr string
  | JArr "json list"
  | JObj "(string \<times> json) list"


text \<open>\<^verbatim>\<open>x.get(k, default)\<close>: \<^verbatim>\<open>AttributeError\<close> when \<open>x\<close> is not a dict.\<close>

fun json_get :: "json \<Rightarrow> string \<Rightarrow> json \<Rightarrow> error + json" where
  "json_get (JObj kvs) k d = Inr (case map_of kvs k of None \<Rightarrow> d | Some v \<Rightarrow> v)"
| "json_get _ k d = Inl AttributeError"

fun json_truthy :: "json \<Rightarrow> bool" where
  "json_truthy JNull = False"
| "json_truthy (JBool b) = b"
| "json_truthy (JInt n) = (n \<noteq> 0)"
| "json_truthy (JFloat x) = (x \<noteq> 0)"
| "json_truthy (JStr s) = (s \<noteq> [])"
| "json_truthy (JArr xs) = (xs \<noteq> [])"
| "json_truthy (JObj kvs) = (kvs \<noteq> [])"

text \<open>\<^verbatim>\<open>x in names\<close> for a list of strings: only a string equals a string.\<close>

fun json_in :: "json \<Rightarrow> string list \<Rightarrow> bool" where
  "json_in (JStr s) names = (s \<in> set names)"
| "json_in _ names = False"

text \<open>
  What the code calls and does not define: \<^verbatim>\<open>str.lower\<close>; \<^verbatim>\<open>json.dumps\<close> with
  the UTF-8 encoding of \<^verbatim>\<open>writestr\<close>; the UTF-8 decoding with \<^verbatim>\<open>json.loads\<close>, and
  the exception either raises; the bytes \<^verbatim>\<open>zipfile\<close> has put in the destination
  when the given entries are written and the container is still open, the bytes of
  the closed container, the bytes left when closing the container raises, and the
  container \<^verbatim>\<open>ZipFile(path, "r")\<close> finds in a file
  of given bytes, or the exception it raises; and the exception, if any, with which
  the operating system refuses to open a file for reading, to open or create a file
  for writing, or to create directories (permissions, a missing parent directory, a
  name that is too long). They are the fields of a record that the operations below
  take as an argument.
\<close>

datatype io_op = Open_read | Open_write | Make_dirs

record host =
  lower :: "string \<Rightarrow> string"
  dumps :: "json \<Rightarrow> bytes"
  loads :: "bytes \<Rightarrow> error + json"
  zip_stream :: "zip \<Rightarrow> bytes"
  zip_close :: "zip \<Rightarrow> bytes"
  zip_abort :: "zip \<Rightarrow> bytes"
  zip_open :: "bytes \<Rightarrow> error + zip"
  io_error :: "io_op \<Rightarrow> files \<Rightarrow> path \<Rightarrow> error option"

text \<open>
  \<^verbatim>\<open>open(p, "wb")\<close> and \<^verbatim>\<open>ZipFile(p, "w")\<close>: an \<^verbatim>\<open>OSError\<close> when the path is a
  directory (it is one when its name is \<^verbatim>\<open>..\<close>), else what the operating system
  says. A new file is empty.
\<close>

definition open_write :: "host \<Rightarrow> files \<Rightarrow> path \<Rightarrow> error option" where
  "open_write h fs p =
     (if path_name p = ''..'' then Some OSError
      else (case fs p of
              Some (Dir y) \<Rightarrow> Some OSError
            | _ \<Rightarrow> io_error h Open_write fs p))"

text \<open>
  \<^verbatim>\<open>mkdir(parents=True, exist_ok=True)\<close>: an \<^verbatim>\<open>OSError\<close> when the path or one of its
  parents is a regular file; else the directories that are missing are created.
\<close>

definition ancestors :: "path \<Rightarrow> path list" where
  "ancestors p = map (\<lambda>n. take n p) [1..<Suc (length p)]"

definition is_file :: "files \<Rightarrow> path \<Rightarrow> bool" where
  "is_file fs p = (case fs p of Some (File d y) \<Rightarrow> True | _ \<Rightarrow> False)"

definition make_dirs :: "host \<Rightarrow> int \<Rightarrow> files \<Rightarrow> path \<Rightarrow> error + files" where
  "make_dirs h year fs p =
     (case io_error h Make_dirs fs p of
        Some e \<Rightarrow> Inl e
      | None \<Rightarrow>
          if list_ex (is_file fs) (ancestors p) then Inl OSError
          else Inr (foldl (\<lambda>fs q. if fs q = None then fs(q \<mapsto> Dir year) else fs)
                      fs (ancestors p)))"


section \<open>SoundBank\<close>

definition APP_NAME :: string where
  "APP_NAME = ''Live Drawing Timer + Announcer''"


definition CUES :: "(string \<times> string) list" where
  "CUES =
     [(''session_start'', ''Session Start''),
      (''pose_start'', ''Pose Start''),
      (''five_min'', ''5 Minutes Remaining''),
      (''one_min'', ''1 Minute Remaining''),
      (''thirty_sec'', ''30 Seconds Remaining''),
      (''over'', ''Over'')]"

text \<open>
  \<open>cue_files\<close> is the dict of the class (a key can hold \<^verbatim>\<open>None\<close>); \<open>effects\<close> holds,
  for every cue that has a \<^verbatim>\<open>QSoundEffect\<close>, the source of that effect;
  \<open>play_log\<close> records every call of \<^verbatim>\<open>play\<close>: the cue, and whether the effect
  was restarted.
\<close>

record soundbank =
  base_dir :: path
  cue_files :: "string \<rightharpoonup> path option"
  effects :: "string \<rightharpoonup> path option"
  play_log :: "(string \<times> bool) list"

definition soundbank_init :: "path \<Rightarrow> soundbank" where
  "soundbank_init dir =
     \<lparr>base_dir = dir,
      cue_files = map_of (map (\<lambda>(k, _). (k, None)) CUES),
      effects = map_of (map (\<lambda>(k, _). (k, None)) CUES),
      play_log = []\<rparr>"

definition get_cue_file :: "soundbank \<Rightarrow> string \<Rightarrow> path option" where
  "get_cue_file sb cue_key = (case cue_files sb cue_key of None \<Rightarrow> None | Some p \<Rightarrow> p)"

definition set_cue_file :: "files \<Rightarrow> soundbank \<Rightarrow> string \<Rightarrow> path option \<Rightarrow> soundbank" where
  "set_cue_file fs sb cue_key p =
     (let sb1 = sb\<lparr>cue_files := (cue_files sb)(cue_key \<mapsto> p)\<rparr> in
      case effects sb1 cue_key of
        None \<Rightarrow> sb1
      | Some _ \<Rightarrow>
          sb1\<lparr>effects := (effects sb1)(cue_key \<mapsto>
                 (case p of
                    None \<Rightarrow> None
                  | Some q \<Rightarrow> if path_exists fs q then Some q else None))\<rparr>)"

definition play :: "files \<Rightarrow> soundbank \<Rightarrow> string \<Rightarrow> soundbank" where
  "play fs sb cue_key =
     (let eff = effects sb cue_key;
          p = get_cue_file sb cue_key;
          restarted = (eff \<noteq> None \<and> (case p of None \<Rightarrow> False | Some q \<Rightarrow> path_exists fs q))
      in sb\<lparr>play_log := play_log sb @ [(cue_key, restarted)]\<rparr>)"






text \<open>
  \<^verbatim>\<open>import_soundbank\<close>: \<open>stamp\<close> is the result of \<^verbatim>\<open>time.strftime\<close>, \<open>year\<close> the
  year in which the files are written. An exception leaves the bank and the files as
  they are at that moment: the result is then \<open>Inl\<close> of the error and that state.
  The entries are those of the container as it was opened (an import that extracts a
  file onto the archive it is reading is not followed).
  In the loop, \<open>extract_entry\<close> is the \<^verbatim>\<open>with\<close> block: the entry is opened first, then the
  destination, which is emptied; then the entry is read and written.
\<close>

type_synonym bank_state = "soundbank \<times> files"

definition entry_name :: "json \<Rightarrow> zip \<Rightarrow> string option" where
  "entry_name arc_name zf =
     (if json_truthy arc_name \<and> json_in arc_name (namelist zf)
      then (case arc_name of JStr s \<Rightarrow> Some s | _ \<Rightarrow> None)
      else None)"

definition extract_entry ::
  "host \<Rightarrow> int \<Rightarrow> zip \<Rightarrow> string \<Rightarrow> path \<Rightarrow> files \<Rightarrow> (error \<times> files) + files" where
  "extract_entry h year zf arc dest fs =
     (case getinfo zf arc of
        None \<Rightarrow> Inl (KeyError, fs)
      | Some (Bad_open e) \<Rightarrow> Inl (e, fs)
      | Some (Bad_read e) \<Rightarrow>
          (case open_write h fs dest of
             Some e' \<Rightarrow> Inl (e', fs)
           | None \<Rightarrow> Inl (e, fs(dest \<mapsto> File [] year)))
      | Some (Data data) \<Rightarrow>
          (case open_write h fs dest of
             Some e' \<Rightarrow> Inl (e', fs)
           | None \<Rightarrow> Inr (fs(dest \<mapsto> File data year))))"

fun import_cues ::
  "host \<Rightarrow> int \<Rightarrow> json \<Rightarrow> path \<Rightarrow> zip \<Rightarrow> (string \<times> string) list \<Rightarrow> bank_state
     \<Rightarrow> (error \<times> bank_state) + bank_state" where
  "import_cues h year cues target_dir zf [] st = Inr st"
| "import_cues h year cues target_dir zf ((cue_key, cue_name) # rest) (sb, fs) =
     (case json_get cues cue_key JNull of
        Inl e \<Rightarrow> Inl (e, (sb, fs))
      | Inr arc_name \<Rightarrow>
          (case entry_name arc_name zf of
             None \<Rightarrow> import_cues h year cues target_dir zf rest (sb, fs)
           | Some arc \<Rightarrow>
               let dest = path_join target_dir (path_name (Path arc)) in
               (case extract_entry h year zf arc dest fs of
                  Inl (e, fs1) \<Rightarrow> Inl (e, (sb, fs1))
                | Inr fs1 \<Rightarrow>
                    import_cues h year cues target_dir zf rest
                      (set_cue_file fs1 sb cue_key (Some dest), fs1))))"

definition open_zip :: "host \<Rightarrow> files \<Rightarrow> path \<Rightarrow> error + zip" where
  "open_zip h fs p =
     (case fs p of
        Some (File data y) \<Rightarrow>
          (case io_error h Open_read fs p of
             Some e \<Rightarrow> Inl e
           | None \<Rightarrow> zip_open h data)
      | _ \<Rightarrow> Inl OSError)"

definition import_soundbank ::
  "host \<Rightarrow> string \<Rightarrow> int \<Rightarrow> path \<Rightarrow> bank_state \<Rightarrow> (error \<times> bank_state) + bank_state" where
  "import_soundbank h stamp year in_path st =
     (case open_zip h (snd st) in_path of
        Inl e \<Rightarrow> Inl (e, st)
      | Inr zf \<Rightarrow>
          (case zip_read zf ''manifest.json'' of
             Inl e \<Rightarrow> Inl (e, st)
           | Inr raw \<Rightarrow>
               (case loads h raw of
                  Inl e \<Rightarrow> Inl (e, st)
                | Inr manifest \<Rightarrow>
                    (case json_get manifest ''cues'' (JObj []) of
                       Inl e \<Rightarrow> Inl (e, st)
                     | Inr cues \<Rightarrow>
                         let target_dir = path_join (base_dir (fst st)) (''soundbank_'' @ stamp)
                         in (case make_dirs h year (snd st) target_dir of
                               Inl e \<Rightarrow> Inl (e, st)
                             | Inr fs1 \<Rightarrow>
                                 import_cues h year cues target_dir zf CUES (fst st, fs1))))))"

section \<open>Main window\<close>

text \<open>
  The state of \<^verbatim>\<open>TimerWindow\<close> that its slots read and write: the sound bank, the
  engine, the poses, the index of the current pose, the texts of the two labels, the
  values of the two spin boxes, the items of the list widget and the check box.
\<close>

record window =
  soundbank :: soundbank
  engine :: timer_engine
  poses :: "pose list"
  current_index :: int
  display :: string
  pose_info :: string
  spin_min :: int
  spin_sec :: int
  pose_list :: "string list"
  chk_auto_advance :: bool

definition window_init :: "path \<Rightarrow> window" where
  "window_init home =
     \<lparr>soundbank = soundbank_init (home @ [''.live_drawing_timer'', ''sounds'']),
      engine = engine_init,
      poses = [],
      current_index = - 1,
      display = ''00:00'',
      pose_info = ''Idle'',
      spin_min = 5,
      spin_sec = 0,
      pose_list = [],
      chk_auto_advance = True\<rparr>"

definition add_pose :: "window \<Rightarrow> window" where
  "add_pose w =
     (let total = spin_min w * 60 + spin_sec w in
      if total \<le> 0 then w
      else w\<lparr>poses := poses w @ [Pose total],
              pose_list := pose_list w @ [seconds_to_hhmmss total]\<rparr>)"

definition update_display :: "int \<Rightarrow> window \<Rightarrow> window" where
  "update_display secs w = w\<lparr>display := seconds_to_hhmmss secs\<rparr>"

text \<open>\<^verbatim>\<open>engine.start\<close> emits \<^verbatim>\<open>tick_signal\<close> only; its slot is \<^verbatim>\<open>update_display\<close>.\<close>

fun tick_slot :: "signal list \<Rightarrow> window \<Rightarrow> window" where
  "tick_slot [] w = w"
| "tick_slot (Tick_signal n # sigs) w = tick_slot sigs (update_display n w)"
| "tick_slot (Finished_signal # sigs) w = tick_slot sigs w"

definition start_pose :: "files \<Rightarrow> real \<Rightarrow> window \<Rightarrow> error + window" where
  "start_pose fs now w =
     (case py_index (poses w) (current_index w) of
        Inl e \<Rightarrow> Inl e
      | Inr pose \<Rightarrow>
          let w1 = w\<lparr>pose_info := ''Pose '' @ str_int (current_index w + 1)\<rparr>;
              w2 = w1\<lparr>soundbank := play fs (soundbank w1) ''pose_start''\<rparr>;
              (e, sigs) = engine_start now (seconds pose) (engine w2)
          in Inr (tick_slot sigs (w2\<lparr>engine := e\<rparr>)))"

definition start_session :: "files \<Rightarrow> real \<Rightarrow> window \<Rightarrow> error + window" where
  "start_session fs now w =
     (if poses w = [] then Inr w
      else
        let w1 = w\<lparr>current_index := 0\<rparr>;
            w2 = w1\<lparr>soundbank := play fs (soundbank w1) ''session_start''\<rparr>
        in start_pose fs now w2)"

definition next_pose :: "files \<Rightarrow> real \<Rightarrow> window \<Rightarrow> error + window" where
  "next_pose fs now w =
     (if current_index w < int (length (poses w)) - 1
      then start_pose fs now (w\<lparr>current_index := current_index w + 1\<rparr>)
      else Inr w)"

definition on_pose_finished :: "files \<Rightarrow> real \<Rightarrow> window \<Rightarrow> error + window" where
  "on_pose_finished fs now w =
     (let w1 = w\<lparr>soundbank := play fs (soundbank w) ''over''\<rparr> in
      if chk_auto_advance w1 then
        if current_index w1 < int (length (poses w1)) - 1
        then start_pose fs now (w1\<lparr>current_index := current_index w1 + 1\<rparr>)
        else Inr (w1\<lparr>pose_info := ''Session Complete''\<rparr>)
      else Inr (w1\<lparr>pose_info := ''Pose Finished (Manual Advance)''\<rparr>))"

text \<open>The signals of the engine reach their slots in the order of emission.\<close>

fun window_emit :: "files \<Rightarrow> real \<Rightarrow> signal list \<Rightarrow> window \<Rightarrow> error + window" where
  "window_emit fs now [] w = Inr w"
| "window_emit fs now (Tick_signal n # sigs) w = window_emit fs now sigs (update_display n w)"
| "window_emit fs now (Finished_signal # sigs) w =
     (case on_pose_finished fs now w of
        Inl e \<Rightarrow> Inl e
      | Inr w' \<Rightarrow> window_emit fs now sigs w')"

definition window_timeout :: "files \<Rightarrow> real \<Rightarrow> window \<Rightarrow> error + window" where
  "window_timeout fs now w =
     (let (e, sigs) = timer_timeout now (engine w)
      in window_emit fs now sigs (w\<lparr>engine := e\<rparr>))"

text \<open>A run of the window: the timeouts of the engine's timer at the given clock
  readings, with no other event in between.\<close>

fun window_run :: "files \<Rightarrow> real list \<Rightarrow> window \<Rightarrow> error + window" where
  "window_run fs [] w = Inr w"
| "window_run fs (now # nows) w =
     (case window_timeout fs now w of
        Inl e \<Rightarrow> Inl e
      | Inr w' \<Rightarrow> window_run fs nows w')"

section \<open>Properties of the timer engine\<close>

lemma py_int_zero: "0 \<le> x \<Longrightarrow> x < 1 \<Longrightarrow> py_int x = 0"
  by (simp add: py_int_def floor_eq_iff)

lemma py_int_one: "1 \<le> x \<Longrightarrow> x < 2 \<Longrightarrow> py_int x = 1"
  by (simp add: py_int_def floor_eq_iff)

lemma c_int_id: "- 2147483648 \<le> n \<Longrightarrow> n < 2147483648 \<Longrightarrow> c_int n = n"
  by (simp add: c_int_def)

lemma engine_run_inactive: "\<not> timer_active e \<Longrightarrow> engine_run nows e = (e, [])"
  by (induction nows) (simp_all add: timer_timeout_def)

lemma rev_upto_step: "(lo::int) \<le> hi \<Longrightarrow> rev [lo..hi] = hi # rev [lo..hi - 1]"
  by (simp add: upto_rec2)

text \<open>
  A running engine under steady sampling, with a remaining time that fits the signal:
  every decrement is by one second, the signals are the ticks from \<open>remaining - 1\<close>
  down, closed by the completion signal when zero is reached, and each decrement
  advances the timestamp by less than two seconds.
\<close>

lemma engine_run_steady:
  assumes "steady p nows" "running e" "timer_active e" "0 < remaining e"
    and "last_ts e \<le> p" "p < last_ts e + 1" and "remaining e \<le> 2147483648"
  shows "case engine_run nows e of (e', sigs) \<Rightarrow>
      0 \<le> remaining e' \<and> remaining e' \<le> remaining e \<and>
      sigs = map Tick_signal (rev [remaining e'..remaining e - 1])
               @ (if running e' then [] else [Finished_signal]) \<and>
      running e' = (0 < remaining e') \<and> timer_active e' = running e' \<and>
      last_ts e' + 2 * real_of_int (remaining e') \<le> last_ts e + 2 * real_of_int (remaining e) \<and>
      (running e' \<longrightarrow> last (p # nows) < last_ts e' + 1)"
  using assms
proof (induction nows arbitrary: e p)
  case Nil
  then show ?case by simp
next
  case (Cons t ts)
  from Cons.prems have pt: "p \<le> t" "t < p + 1" and st: "steady t ts" by simp_all
  have lo: "0 \<le> t - last_ts e" and hi: "t - last_ts e < 2" using pt Cons.prems by linarith+
  show ?case
  proof (cases "t - last_ts e < 1")
    case True
    then have dt: "py_int (t - last_ts e) = 0" using lo by (rule_tac py_int_zero)
    have step: "timer_timeout t e = (e, [])"
      using Cons.prems dt by (simp add: timer_timeout_def engine_tick_def)
    have "last_ts e \<le> t" "t < last_ts e + 1" using True lo by linarith+
    from Cons.IH[OF st Cons.prems(2,3,4) this Cons.prems(7)] show ?thesis
      using step by (simp split: prod.splits)
  next
    case False
    then have dt: "py_int (t - last_ts e) = 1" using hi by (intro py_int_one) linarith+
    show ?thesis
    proof (cases "remaining e = 1")
      case True
      let ?e' = "e\<lparr>last_ts := t, remaining := 0, running := False, timer_active := False\<rparr>"
      have step: "timer_timeout t e = (?e', [Tick_signal 0, Finished_signal])"
        using Cons.prems dt True
        by (simp add: timer_timeout_def engine_tick_def Let_def c_int_def)
      have rest: "engine_run ts ?e' = (?e', [])" by (rule engine_run_inactive) simp
      show ?thesis using step rest True hi by simp
    next
      case False
      let ?e' = "e\<lparr>last_ts := t, remaining := remaining e - 1\<rparr>"
      have fits: "c_int (remaining e - 1) = remaining e - 1"
        using Cons.prems(4,7) by (intro c_int_id) simp_all
      have step: "timer_timeout t e = (?e', [Tick_signal (remaining e - 1)])"
        using Cons.prems dt False fits
        by (simp add: timer_timeout_def engine_tick_def Let_def)
      have pre: "running ?e'" "timer_active ?e'" "0 < remaining ?e'"
        "last_ts ?e' \<le> t" "t < last_ts ?e' + 1" "remaining ?e' \<le> 2147483648"
        using Cons.prems False by simp_all
      obtain e2 s2 where run: "engine_run ts ?e' = (e2, s2)" by (cases "engine_run ts ?e'")
      from Cons.IH[OF st pre] run have ih:
        "0 \<le> remaining e2" "remaining e2 \<le> remaining e - 1"
        "s2 = map Tick_signal (rev [remaining e2..remaining e - 1 - 1])
               @ (if running e2 then [] else [Finished_signal])"
        "running e2 = (0 < remaining e2)" "timer_active e2 = running e2"
        "last_ts e2 + 2 * real_of_int (remaining e2) \<le> t + 2 * real_of_int (remaining e - 1)"
        "running e2 \<longrightarrow> last (t # ts) < last_ts e2 + 1"
        by simp_all
      have sig: "Tick_signal (remaining e - 1) # s2
            = map Tick_signal (rev [remaining e2..remaining e - 1])
               @ (if running e2 then [] else [Finished_signal])"
        using ih(2,3) rev_upto_step[of "remaining e2" "remaining e - 1"] by simp
      have pot: "last_ts e2 + 2 * real_of_int (remaining e2)
                   \<le> last_ts e + 2 * real_of_int (remaining e)"
        using ih(6) hi by simp
      show ?thesis using step run ih(1,2,4,5,7) sig pot by simp
    qed
  qed
qed

text \<open>
  Claim C1, as the code has it. For every duration \<open>d\<close> from 1 (the only durations
  \<^verbatim>\<open>add_pose\<close> lets through are positive) to \<open>2\<^sup>3\<^sup>1 - 1\<close> (the largest value the
  signal carries), \<^verbatim>\<open>start(d)\<close> emits a tick carrying \<open>d\<close> at once; an
  uninterrupted run sampled steadily (the clock never goes back and consecutive
  timeouts are less than one second apart) that lasts until at least \<open>2 d - 1\<close> seconds
  after the start then emits exactly the \<open>d\<close> ticks \<open>d - 1, \<dots>, 0\<close> followed by exactly
  one completion signal; the engine is then stopped with zero remaining, and a later
  timeout emits nothing.
\<close>

theorem engine_session_countdown:
  assumes "1 \<le> d" and "d \<le> 2147483647" and "steady t0 nows" and "nows \<noteq> []"
    and "t0 + 2 * real_of_int d - 1 \<le> last nows"
  shows "snd (engine_session t0 d nows)
           = Tick_signal d # map Tick_signal (rev [0..d - 1]) @ [Finished_signal]
       \<and> remaining (fst (engine_session t0 d nows)) = 0
       \<and> \<not> running (fst (engine_session t0 d nows))
       \<and> \<not> timer_active (fst (engine_session t0 d nows))
       \<and> (\<forall>t. timer_timeout t (fst (engine_session t0 d nows))
                = (fst (engine_session t0 d nows), []))"
proof -
  let ?e = "engine_init\<lparr>remaining := d, running := True, last_ts := t0, timer_active := True\<rparr>"
  obtain e' s where run: "engine_run nows ?e = (e', s)" by (cases "engine_run nows ?e")
  have fits: "c_int d = d" using assms(1,2) by (intro c_int_id) simp_all
  have sess: "engine_session t0 d nows = (e', Tick_signal d # s)"
    using run fits by (simp add: engine_session_def engine_start_def)
  have pre: "running ?e" "timer_active ?e" "0 < remaining ?e"
    "last_ts ?e \<le> t0" "t0 < last_ts ?e + 1" "remaining ?e \<le> 2147483648"
    using assms(1,2) by simp_all
  from engine_run_steady[OF assms(3) pre] run have sh:
    "0 \<le> remaining e'"
    "s = map Tick_signal (rev [remaining e'..d - 1])
           @ (if running e' then [] else [Finished_signal])"
    "running e' = (0 < remaining e')" "timer_active e' = running e'"
    "last_ts e' + 2 * real_of_int (remaining e') \<le> t0 + 2 * real_of_int d"
    "running e' \<longrightarrow> last (t0 # nows) < last_ts e' + 1"
    by simp_all
  have stopped: "\<not> running e'"
  proof
    assume r: "running e'"
    then have "1 \<le> remaining e'" using sh(3) by simp
    then have "2 \<le> 2 * real_of_int (remaining e')" by simp
    moreover have "last nows < last_ts e' + 1" using sh(6) r assms(4) by simp
    ultimately show False using sh(5) assms(5) by linarith
  qed
  then have zero: "remaining e' = 0" using sh(1,3) by simp
  show ?thesis using sess sh(2,4) stopped zero by (simp add: timer_timeout_def)
qed

theorem engine_session_countdown_witness:
  "(1::int) \<le> 3 \<and> (3::int) \<le> 2147483647
    \<and> steady 0 [1/2, 1, 3/2, 2, 5/2, 3, 7/2, 4, 9/2, 5]
    \<and> snd (engine_session 0 3 [1/2, 1, 3/2, 2, 5/2, 3, 7/2, 4, 9/2, 5])
         = [Tick_signal 3, Tick_signal 2, Tick_signal 1, Tick_signal 0, Finished_signal]"
proof -
  have h1: "(1::int) \<le> 3" by simp
  have hb: "(3::int) \<le> 2147483647" by simp
  have h2: "steady 0 [1/2, 1, 3/2, 2, 5/2, 3, 7/2, 4, 9/2, 5]" by simp
  have h3: "[1/2, 1, 3/2, 2, 5/2, 3, 7/2, 4, 9/2, (5::real)] \<noteq> []" by simp
  have h4: "0 + 2 * real_of_int 3 - 1 \<le> last [1/2, 1, 3/2, 2, 5/2, 3, 7/2, 4, 9/2, (5::real)]"
    by simp
  have up: "rev [0..(3::int) - 1] = [2, 1, 0]" by (simp add: upto_rec1)
  show ?thesis using engine_session_countdown[OF h1 hb h2 h3 h4] h2 up by simp
qed

text \<open>
  The claim as the specification states it fails at \<open>d = 0\<close>: under steady sampling
  every 200 ms the engine emits, after the first tick, one more tick carrying \<open>- 1\<close>
  before the completion signal, where the claim has no tick at all. It also fails when
  a timeout comes late: after a stall of two and a half seconds the countdown from 2
  goes to 0 in a single tick.
\<close>

theorem engine_session_zero_counterexample:
  "steady 0 [1/5, 2/5, 3/5, 4/5, 1]
   \<and> snd (engine_session 0 0 [1/5, 2/5, 3/5, 4/5, 1])
       = [Tick_signal 0, Tick_signal (- 1), Finished_signal]
   \<and> snd (engine_session 0 0 [1/5, 2/5, 3/5, 4/5, 1])
       \<noteq> Tick_signal 0 # map Tick_signal (rev [0..0 - 1]) @ [Finished_signal]
   \<and> snd (engine_session 0 2 [5/2]) = [Tick_signal 2, Tick_signal 0, Finished_signal]
   \<and> snd (engine_session 0 2 [5/2])
       \<noteq> Tick_signal 2 # map Tick_signal (rev [0..2 - 1]) @ [Finished_signal]"
  by (simp add: engine_session_def engine_start_def engine_init_def timer_timeout_def
      engine_tick_def py_int_def c_int_def Let_def upto_rec1)

text \<open>
  One timeout of a running engine whose clock has not gone back: the remaining time
  goes down by the whole seconds since the timestamp, and the timestamp moves, to the
  current reading, only when at least one whole second has passed.
\<close>

lemma engine_tick_whole_seconds:
  assumes "running e" and "last_ts e \<le> now"
  shows "remaining (fst (engine_tick now e)) = remaining e - \<lfloor>now - last_ts e\<rfloor>"
    and "last_ts (fst (engine_tick now e)) = (if 1 \<le> now - last_ts e then now else last_ts e)"
proof -
  have dt: "py_int (now - last_ts e) = \<lfloor>now - last_ts e\<rfloor>"
    using assms(2) by (simp add: py_int_def)
  have z: "\<lfloor>now - last_ts e\<rfloor> \<le> 0 \<longleftrightarrow> \<not> 1 \<le> now - last_ts e"
    by (simp add: floor_le_iff not_le)
  have nn: "0 \<le> \<lfloor>now - last_ts e\<rfloor>" using assms(2) by simp
  show "remaining (fst (engine_tick now e)) = remaining e - \<lfloor>now - last_ts e\<rfloor>"
  proof (cases "\<lfloor>now - last_ts e\<rfloor> \<le> 0")
    case True
    then have "\<lfloor>now - last_ts e\<rfloor> = 0" using nn by linarith
    then show ?thesis using assms(1) dt by (simp add: engine_tick_def)
  next
    case False
    then show ?thesis using assms(1) dt by (simp add: engine_tick_def Let_def)
  qed
  show "last_ts (fst (engine_tick now e)) = (if 1 \<le> now - last_ts e then now else last_ts e)"
    using assms(1) dt z by (auto simp: engine_tick_def Let_def)
qed

text \<open>
  Claim C2, evaluated on the code. The engine is started with 3 seconds at clock
  reading 0 and sampled every 750 ms. The timeout at 1.5 s counts one second and moves
  the timestamp to 1.5, not to 1: the half second beyond the counted second is gone.
  At reading 3, three whole seconds after the start, the engine has counted two and
  still shows one second remaining, with no completion signal.
\<close>

theorem engine_tick_drops_fraction:
  "steady 0 [3/4, 3/2, 9/4, 3]
   \<and> engine_run [3/4, 3/2] (fst (engine_start 0 3 engine_init))
       = (\<lparr>remaining = 2, running = True, last_ts = 3/2, timer_active = True\<rparr>,
          [Tick_signal 2])
   \<and> engine_session 0 3 [3/4, 3/2, 9/4, 3]
       = (\<lparr>remaining = 1, running = True, last_ts = 3, timer_active = True\<rparr>,
          [Tick_signal 3, Tick_signal 2, Tick_signal 1])"
  by (simp add: engine_session_def engine_start_def engine_init_def timer_timeout_def
      engine_tick_def py_int_def c_int_def Let_def)

section \<open>Properties of the labels and of the session control\<close>

lemma digit_char_not_colon: "digit_char n \<noteq> CHR '':''"
proof -
  have "digit_char n \<in> set ''0123456789''"
    unfolding digit_char_def by (rule nth_mem) simp
  then show ?thesis by auto
qed

lemma digits10_no_colon: "CHR '':'' \<notin> set (digits10 n)"
proof (induction n rule: digits10.induct)
  case (1 n)
  show ?case
  proof (cases "n < 10")
    case True
    then show ?thesis using digit_char_not_colon[of n] by (subst digits10.simps) simp
  next
    case False
    then show ?thesis
      using 1 digit_char_not_colon[of "n mod 10"] by (subst digits10.simps) simp
  qed
qed

lemma format_0d_no_colon: "filter (\<lambda>c. c = CHR '':'') (format_0d k n) = []"
  using digits10_no_colon[of "nat \<bar>n\<bar>"]
  by (auto simp: format_0d_def Let_def filter_empty_conv)

lemma colons_hhmmss:
  "length (filter (\<lambda>c. c = CHR '':'') (seconds_to_hhmmss t)) = (if 3600 \<le> t then 2 else 1)"
proof -
  have h: "0 < t div 3600 \<longleftrightarrow> 3600 \<le> t" by (simp add: pos_imp_zdiv_pos_iff)
  show ?thesis
    using h by (simp add: seconds_to_hhmmss_def Let_def format_0d_no_colon)
qed

lemma digit_char_mod: "digit_char (n mod 10) = digit_char n"
  by (simp add: digit_char_def)

lemma digit_char_zero: "digit_char 0 = CHR ''0''"
  by (simp add: digit_char_def)

lemma digits10_length: "0 < length (digits10 n)"
  by (subst digits10.simps) simp

lemma digits10_two: "n < 100 \<Longrightarrow> 10 \<le> n \<Longrightarrow> digits10 n = [digit_char (n div 10), digit_char n]"
proof -
  assume a: "n < 100" "10 \<le> n"
  then have "n div 10 < 10" by simp
  then have "digits10 (n div 10) = [digit_char (n div 10)]" by (subst digits10.simps) simp
  then show ?thesis using a by (subst digits10.simps) (simp add: digit_char_mod)
qed

lemma format_0d_two:
  assumes "0 \<le> m" and "m < 100"
  shows "format_0d 2 m = [digit_char (nat m div 10), digit_char (nat m)]"
proof (cases "nat m < 10")
  case True
  then have "digits10 (nat m) = [digit_char (nat m)]" by (subst digits10.simps) simp
  then show ?thesis using assms True by (simp add: format_0d_def Let_def digit_char_zero)
next
  case False
  then have "digits10 (nat m) = [digit_char (nat m div 10), digit_char (nat m)]"
    using assms by (intro digits10_two) simp_all
  then show ?thesis using assms by (simp add: format_0d_def Let_def)
qed

lemma format_0d_one: "0 \<le> h \<Longrightarrow> format_0d 1 h = str_int h"
  using digits10_length[of "nat h"]
  by (cases "length (digits10 (nat h))") (simp_all add: format_0d_def str_int_def Let_def)

lemma format_0d_minutes:
  "format_0d 2 ((u mod 3600) div 60)
     = [digit_char (nat ((u mod 3600) div 60) div 10), digit_char (nat ((u mod 3600) div 60))]"
  by (rule format_0d_two)
     (simp_all add: pos_imp_zdiv_nonneg_iff div_less_iff_less_mult[symmetric])

lemma format_0d_seconds:
  "format_0d 2 (u mod 60) = [digit_char (nat (u mod 60) div 10), digit_char (nat (u mod 60))]"
proof (rule format_0d_two)
  show "0 \<le> u mod 60" by simp
  have "u mod 60 < 60" by simp
  then show "u mod 60 < 100" by linarith
qed

lemma seconds_to_hhmmss_format:
  "seconds_to_hhmmss t =
     (let u = max 0 t; m = nat ((u mod 3600) div 60); s = nat (u mod 60);
          mm = [digit_char (m div 10), digit_char m];
          ss = [digit_char (s div 10), digit_char s]
      in if 3600 \<le> t then str_int (t div 3600) @ '':'' @ mm @ '':'' @ ss
         else mm @ '':'' @ ss)"
proof (cases "3600 \<le> t")
  case True
  then have h: "0 < t div 3600" by (simp add: pos_imp_zdiv_pos_iff)
  have one: "format_0d 1 (t div 3600) = str_int (t div 3600)"
    using h by (intro format_0d_one) simp
  show ?thesis
    using True h
    by (simp add: seconds_to_hhmmss_def Let_def format_0d_minutes format_0d_seconds one
        del: One_nat_def)
next
  case False
  define u where "u = max 0 t"
  have h: "\<not> 0 < u div 3600" using False by (simp add: u_def max_def pos_imp_zdiv_pos_iff)
  have u: "(if t < 0 then 0 else t) = u" by (simp add: u_def max_def)
  have "seconds_to_hhmmss t = format_0d 2 ((u mod 3600) div 60) @ '':'' @ format_0d 2 (u mod 60)"
    unfolding seconds_to_hhmmss_def u using h by (simp add: Let_def)
  then show ?thesis
    using False unfolding u_def[symmetric] Let_def format_0d_minutes format_0d_seconds
    by simp
qed

text \<open>
  Claim C7, as the code has it. 59 seconds give \<^verbatim>\<open>00:59\<close> and 3661 seconds give
  \<^verbatim>\<open>1:01:01\<close>. A total of at least 3600 seconds is written as the hours without
  padding, a colon, the minutes with two digits, a colon and the seconds with two
  digits; a smaller total is written as the minutes with two digits, a colon and the
  seconds with two digits (a negative total as \<^verbatim>\<open>00:00\<close>). So the label has the hour
  component (a second colon) exactly when the total is at least 3600 seconds. Adding
  a pose of 1 minute 30 seconds appends the pose of 90 seconds and the list item
  \<^verbatim>\<open>01:30\<close>.
\<close>

theorem seconds_to_hhmmss_labels:
  "seconds_to_hhmmss 59 = ''00:59''
   \<and> seconds_to_hhmmss 3661 = ''1:01:01''
   \<and> seconds_to_hhmmss t =
       (let u = max 0 t; m = nat ((u mod 3600) div 60); s = nat (u mod 60);
            mm = [digit_char (m div 10), digit_char m];
            ss = [digit_char (s div 10), digit_char s]
        in if 3600 \<le> t then str_int (t div 3600) @ '':'' @ mm @ '':'' @ ss
           else mm @ '':'' @ ss)
   \<and> length (filter (\<lambda>c. c = CHR '':'') (seconds_to_hhmmss t)) = (if 3600 \<le> t then 2 else 1)
   \<and> (spin_min w = 1 \<and> spin_sec w = 30 \<longrightarrow>
        poses (add_pose w) = poses w @ [Pose 90]
        \<and> pose_list (add_pose w) = pose_list w @ [''01:30''])"
proof -
  have a: "seconds_to_hhmmss 59 = ''00:59''"
    by (simp add: seconds_to_hhmmss_def format_0d_def digits10.simps digit_char_def Let_def)
  have b: "seconds_to_hhmmss 3661 = ''1:01:01''"
    by (simp add: seconds_to_hhmmss_def format_0d_def digits10.simps digit_char_def Let_def)
  have c: "seconds_to_hhmmss 90 = ''01:30''"
    by (simp add: seconds_to_hhmmss_def format_0d_def digits10.simps digit_char_def Let_def)
  have d: "spin_min w = 1 \<and> spin_sec w = 30 \<longrightarrow>
        poses (add_pose w) = poses w @ [Pose 90]
        \<and> pose_list (add_pose w) = pose_list w @ [''01:30'']"
    using c by (simp add: add_pose_def)
  show ?thesis
    using a b d colons_hhmmss[of t] seconds_to_hhmmss_format[of t] by (intro conjI)
qed

theorem seconds_to_hhmmss_labels_witness:
  "seconds_to_hhmmss 7200 = ''2:00:00''
   \<and> seconds_to_hhmmss 420 = ''07:00''
   \<and> spin_min ((window_init [])\<lparr>spin_min := 1, spin_sec := 30\<rparr>) = 1
   \<and> spin_sec ((window_init [])\<lparr>spin_min := 1, spin_sec := 30\<rparr>) = 30
   \<and> length (filter (\<lambda>c. c = CHR '':'') (seconds_to_hhmmss 7200)) = 2
   \<and> pose_list (add_pose ((window_init [])\<lparr>spin_min := 1, spin_sec := 30\<rparr>)) = [''01:30'']"
proof -
  let ?w = "(window_init [])\<lparr>spin_min := 1, spin_sec := 30\<rparr>"
  have a: "seconds_to_hhmmss 7200 = ''2:00:00''"
    using seconds_to_hhmmss_labels[of 7200 ?w]
    by (simp add: str_int_def digits10.simps digit_char_def Let_def)
  have b: "seconds_to_hhmmss 420 = ''07:00''"
    using seconds_to_hhmmss_labels[of 420 ?w]
    by (simp add: digit_char_def Let_def)
  show ?thesis
    using a b seconds_to_hhmmss_labels[of 7200 ?w]
    by (simp add: window_init_def)
qed

text \<open>
  The labels of the specification, \<^verbatim>\<open>0:59\<close> and \<^verbatim>\<open>1:30\<close>, are not the ones the
  code produces.
\<close>

theorem seconds_to_hhmmss_counterexample:
  "seconds_to_hhmmss 59 \<noteq> ''0:59''
   \<and> pose_list (add_pose ((window_init [])\<lparr>spin_min := 1, spin_sec := 30\<rparr>)) \<noteq> [''1:30'']"
  by (simp add: seconds_to_hhmmss_def format_0d_def digits10.simps digit_char_def Let_def add_pose_def
      window_init_def)

text \<open>
  Claim C9. \<^verbatim>\<open>add_pose\<close> computes the total of the two spin boxes in seconds. A total
  of zero or less leaves the whole window unchanged, and nothing is raised (the
  function has no error result). A positive total appends exactly one pose of that
  duration at the end of the list, with its label in the list widget, and changes
  nothing else.
\<close>

theorem add_pose_total:
  "(spin_min w * 60 + spin_sec w \<le> 0 \<longrightarrow> add_pose w = w)
   \<and> (0 < spin_min w * 60 + spin_sec w \<longrightarrow>
        poses (add_pose w) = poses w @ [Pose (spin_min w * 60 + spin_sec w)]
        \<and> length (poses (add_pose w)) = length (poses w) + 1
        \<and> add_pose w = w\<lparr>poses := poses (add_pose w), pose_list := pose_list (add_pose w)\<rparr>
        \<and> pose_list (add_pose w)
            = pose_list w @ [label (Pose (spin_min w * 60 + spin_sec w))])"
  by (simp add: add_pose_def Let_def label_def)

theorem add_pose_total_witness:
  "spin_min (window_init []) * 60 + spin_sec (window_init []) = 300
   \<and> poses (add_pose (window_init [])) = [Pose 300]
   \<and> spin_min ((window_init [])\<lparr>spin_min := 0\<rparr>) * 60
        + spin_sec ((window_init [])\<lparr>spin_min := 0\<rparr>) = 0
   \<and> add_pose ((window_init [])\<lparr>spin_min := 0\<rparr>) = (window_init [])\<lparr>spin_min := 0\<rparr>"
  using add_pose_total[of "window_init []"] add_pose_total[of "(window_init [])\<lparr>spin_min := 0\<rparr>"]
  by (simp add: window_init_def)

lemma play_effect:
  "play fs sb cue_key =
     sb\<lparr>play_log := play_log sb @
          [(cue_key, effects sb cue_key \<noteq> None
                     \<and> (\<exists>p. get_cue_file sb cue_key = Some p \<and> path_exists fs p))]\<rparr>"
  by (cases "get_cue_file sb cue_key") (simp_all add: play_def Let_def)

lemma start_pose_in_range:
  assumes "0 \<le> current_index w" and "current_index w < int (length (poses w))"
  shows "start_pose fs now w =
     Inr (w\<lparr>pose_info := ''Pose '' @ str_int (current_index w + 1),
            soundbank := play fs (soundbank w) ''pose_start'',
            engine := \<lparr>remaining = seconds (poses w ! nat (current_index w)), running = True,
                     last_ts = now, timer_active = True\<rparr>,
            display := seconds_to_hhmmss (c_int (seconds (poses w ! nat (current_index w))))\<rparr>)"
  using assms
  by (simp add: start_pose_def py_index_def engine_start_def update_display_def Let_def)

text \<open>
  Claim C10. With no session started (the index still \<open>- 1\<close>) and a pose list that is
  not empty, \<^verbatim>\<open>next_pose\<close> succeeds, sets the index to 0 and starts the countdown of
  the first pose. The sound bank changes by one call of \<^verbatim>\<open>play\<close>, for the cue
  \<^verbatim>\<open>pose_start\<close>: the sound is restarted exactly when the cue has an effect and a
  recorded file that exists. No other cue is played, so \<^verbatim>\<open>session_start\<close> is not.
\<close>

theorem next_pose_from_initial_index:
  assumes "current_index w = - 1" and "poses w \<noteq> []"
  shows "\<exists>w'. next_pose fs now w = Inr w'
     \<and> current_index w' = 0
     \<and> poses w' = poses w
     \<and> pose_info w' = ''Pose 1''
     \<and> soundbank w' = (soundbank w)\<lparr>play_log := play_log (soundbank w) @
          [(''pose_start'',
            effects (soundbank w) ''pose_start'' \<noteq> None
            \<and> (\<exists>p. get_cue_file (soundbank w) ''pose_start'' = Some p \<and> path_exists fs p))]\<rparr>
     \<and> engine w' = \<lparr>remaining = seconds (hd (poses w)), running = True,
                     last_ts = now, timer_active = True\<rparr>
     \<and> display w' = seconds_to_hhmmss (c_int (seconds (hd (poses w))))"
proof -
  let ?w1 = "w\<lparr>current_index := current_index w + 1\<rparr>"
  have len: "0 < length (poses w)" using assms(2) by simp
  have guard: "current_index w < int (length (poses w)) - 1" using assms(1) len by simp
  have np: "next_pose fs now w = start_pose fs now ?w1"
    using guard by (simp add: next_pose_def)
  have r: "0 \<le> current_index ?w1" "current_index ?w1 < int (length (poses ?w1))"
    using assms(1) len by simp_all
  have one: "str_int 1 = ''1''" by (simp add: str_int_def digits10.simps digit_char_def)
  show ?thesis
    unfolding np start_pose_in_range[OF r] play_effect
    by (simp add: one assms(1) hd_conv_nth[OF assms(2)])
qed

theorem next_pose_from_initial_index_witness:
  "current_index ((window_init [])\<lparr>poses := [Pose 5, Pose 3],
       soundbank := set_cue_file [[''sounds'', ''go.wav''] \<mapsto> File ''RIFF'' 2024]
          (soundbank_init [''sounds'']) ''pose_start'' (Some [''sounds'', ''go.wav''])\<rparr>) = - 1
   \<and> (\<exists>w'. next_pose [[''sounds'', ''go.wav''] \<mapsto> File ''RIFF'' 2024] 7
          ((window_init [])\<lparr>poses := [Pose 5, Pose 3],
             soundbank := set_cue_file [[''sounds'', ''go.wav''] \<mapsto> File ''RIFF'' 2024]
                (soundbank_init [''sounds'']) ''pose_start'' (Some [''sounds'', ''go.wav''])\<rparr>)
          = Inr w'
         \<and> current_index w' = 0
         \<and> pose_info w' = ''Pose 1''
         \<and> play_log (soundbank w') = [(''pose_start'', True)]
         \<and> engine w' = \<lparr>remaining = 5, running = True, last_ts = 7, timer_active = True\<rparr>
         \<and> display w' = ''00:05'')
   \<and> (\<exists>w'. next_pose Map.empty 7 ((window_init [])\<lparr>poses := [Pose 5, Pose 3]\<rparr>) = Inr w'
         \<and> current_index w' = 0
         \<and> play_log (soundbank w') = [(''pose_start'', False)])"
proof -
  let ?fs = "[[''sounds'', ''go.wav''] \<mapsto> File ''RIFF'' 2024]"
  let ?sb = "set_cue_file ?fs (soundbank_init [''sounds'']) ''pose_start''
               (Some [''sounds'', ''go.wav''])"
  let ?w = "(window_init [])\<lparr>poses := [Pose 5, Pose 3], soundbank := ?sb\<rparr>"
  let ?v = "(window_init [])\<lparr>poses := [Pose 5, Pose 3]\<rparr>"
  have h1: "current_index ?w = - 1" by (simp add: window_init_def)
  have h2: "poses ?w \<noteq> []" by simp
  have k1: "current_index ?v = - 1" by (simp add: window_init_def)
  have k2: "poses ?v \<noteq> []" by simp
  have five: "seconds_to_hhmmss (c_int 5) = ''00:05''"
    by (simp add: seconds_to_hhmmss_def format_0d_def digits10.simps digit_char_def c_int_def
        Let_def)
  have sb: "effects ?sb ''pose_start'' = Some (Some [''sounds'', ''go.wav''])"
    "get_cue_file ?sb ''pose_start'' = Some [''sounds'', ''go.wav'']"
    "play_log ?sb = []"
    by (simp_all add: set_cue_file_def soundbank_init_def CUES_def get_cue_file_def
        path_exists_def Let_def)
  have ex: "path_exists ?fs [''sounds'', ''go.wav'']" by (simp add: path_exists_def)
  have sb0: "get_cue_file (soundbank ?v) ''pose_start'' = None" "play_log (soundbank ?v) = []"
    by (simp_all add: window_init_def soundbank_init_def CUES_def get_cue_file_def)
  from next_pose_from_initial_index[OF h1 h2, of ?fs 7] obtain w' where
    a: "next_pose ?fs 7 ?w = Inr w'" "current_index w' = 0" "pose_info w' = ''Pose 1''"
      "soundbank w' = (soundbank ?w)\<lparr>play_log := play_log (soundbank ?w) @
          [(''pose_start'',
            effects (soundbank ?w) ''pose_start'' \<noteq> None
            \<and> (\<exists>p. get_cue_file (soundbank ?w) ''pose_start'' = Some p \<and> path_exists ?fs p))]\<rparr>"
      "engine w' = \<lparr>remaining = seconds (hd (poses ?w)), running = True,
                     last_ts = 7, timer_active = True\<rparr>"
      "display w' = seconds_to_hhmmss (c_int (seconds (hd (poses ?w))))"
    by (elim exE conjE)
  have a_log: "play_log (soundbank w') = [(''pose_start'', True)]"
    unfolding a(4) using sb ex by simp
  have a_all: "\<exists>w'. next_pose ?fs 7 ?w = Inr w' \<and> current_index w' = 0
         \<and> pose_info w' = ''Pose 1''
         \<and> play_log (soundbank w') = [(''pose_start'', True)]
         \<and> engine w' = \<lparr>remaining = 5, running = True, last_ts = 7, timer_active = True\<rparr>
         \<and> display w' = ''00:05''"
    using a(1,2,3,5,6) a_log five by (intro exI[of _ w']) simp
  from next_pose_from_initial_index[OF k1 k2, of Map.empty 7] obtain v' where
    b: "next_pose Map.empty 7 ?v = Inr v'" "current_index v' = 0"
      "soundbank v' = (soundbank ?v)\<lparr>play_log := play_log (soundbank ?v) @
          [(''pose_start'',
            effects (soundbank ?v) ''pose_start'' \<noteq> None
            \<and> (\<exists>p. get_cue_file (soundbank ?v) ''pose_start'' = Some p
                   \<and> path_exists Map.empty p))]\<rparr>"
    by (elim exE conjE)
  have b_log: "play_log (soundbank v') = [(''pose_start'', False)]"
    unfolding b(3) using sb0 by simp
  have b_all: "\<exists>w'. next_pose Map.empty 7 ?v = Inr w' \<and> current_index w' = 0
         \<and> play_log (soundbank w') = [(''pose_start'', False)]"
    using b(1,2) b_log by (intro exI[of _ v']) simp
  show ?thesis using h1 a_all b_all by (intro conjI)
qed

text \<open>
  Claim C6. When the completion signal of the engine reaches the window, the cue
  \<^verbatim>\<open>over\<close> is played first. With auto-advance on and a next pose (the index is at
  least \<open>- 1\<close>, as it is in every state the window reaches), the index goes up by one,
  \<^verbatim>\<open>pose_start\<close> is played and the engine is started again with the duration of the
  new pose. With auto-advance on and no next pose the label reads
  \<^verbatim>\<open>Session Complete\<close>; with auto-advance off it reads
  \<^verbatim>\<open>Pose Finished (Manual Advance)\<close>; in both cases the index and the engine stay
  as they are. In every case the sound bank changes by the calls of \<^verbatim>\<open>play\<close> only,
  and each call restarts the sound exactly when the cue has an effect and a recorded
  file that exists.
\<close>

theorem completion_transitions:
  "(chk_auto_advance w \<and> - 1 \<le> current_index w
      \<and> current_index w < int (length (poses w)) - 1 \<longrightarrow>
      (\<exists>w'. window_emit fs now [Finished_signal] w = Inr w'
         \<and> current_index w' = current_index w + 1
         \<and> soundbank w' = (soundbank w)\<lparr>play_log := play_log (soundbank w) @
              [(''over'',
                effects (soundbank w) ''over'' \<noteq> None
                \<and> (\<exists>p. get_cue_file (soundbank w) ''over'' = Some p \<and> path_exists fs p)),
               (''pose_start'',
                effects (soundbank w) ''pose_start'' \<noteq> None
                \<and> (\<exists>p. get_cue_file (soundbank w) ''pose_start'' = Some p
                       \<and> path_exists fs p))]\<rparr>
         \<and> engine w' = \<lparr>remaining = seconds (poses w ! nat (current_index w + 1)),
                         running = True, last_ts = now, timer_active = True\<rparr>
         \<and> pose_info w' = ''Pose '' @ str_int (current_index w + 2)))
   \<and> (chk_auto_advance w \<and> \<not> current_index w < int (length (poses w)) - 1 \<longrightarrow>
      (\<exists>w'. window_emit fs now [Finished_signal] w = Inr w'
         \<and> pose_info w' = ''Session Complete''
         \<and> current_index w' = current_index w
         \<and> engine w' = engine w
         \<and> soundbank w' = (soundbank w)\<lparr>play_log := play_log (soundbank w) @
              [(''over'',
                effects (soundbank w) ''over'' \<noteq> None
                \<and> (\<exists>p. get_cue_file (soundbank w) ''over'' = Some p \<and> path_exists fs p))]\<rparr>))
   \<and> (\<not> chk_auto_advance w \<longrightarrow>
      (\<exists>w'. window_emit fs now [Finished_signal] w = Inr w'
         \<and> pose_info w' = ''Pose Finished (Manual Advance)''
         \<and> current_index w' = current_index w
         \<and> engine w' = engine w
         \<and> soundbank w' = (soundbank w)\<lparr>play_log := play_log (soundbank w) @
              [(''over'',
                effects (soundbank w) ''over'' \<noteq> None
                \<and> (\<exists>p. get_cue_file (soundbank w) ''over'' = Some p \<and> path_exists fs p))]\<rparr>))"
proof (intro conjI impI)
  assume a: "chk_auto_advance w \<and> - 1 \<le> current_index w
      \<and> current_index w < int (length (poses w)) - 1"
  let ?w1 = "w\<lparr>soundbank := play fs (soundbank w) ''over''\<rparr>"
  let ?w2 = "?w1\<lparr>current_index := current_index ?w1 + 1\<rparr>"
  have fin: "on_pose_finished fs now w = start_pose fs now ?w2"
    using a by (simp add: on_pose_finished_def Let_def)
  have r: "0 \<le> current_index ?w2" "current_index ?w2 < int (length (poses ?w2))"
    using a by simp_all
  have emit: "window_emit fs now [Finished_signal] w = on_pose_finished fs now w"
    by (simp split: sum.splits)
  show "\<exists>w'. window_emit fs now [Finished_signal] w = Inr w'
         \<and> current_index w' = current_index w + 1
         \<and> soundbank w' = (soundbank w)\<lparr>play_log := play_log (soundbank w) @
              [(''over'',
                effects (soundbank w) ''over'' \<noteq> None
                \<and> (\<exists>p. get_cue_file (soundbank w) ''over'' = Some p \<and> path_exists fs p)),
               (''pose_start'',
                effects (soundbank w) ''pose_start'' \<noteq> None
                \<and> (\<exists>p. get_cue_file (soundbank w) ''pose_start'' = Some p
                       \<and> path_exists fs p))]\<rparr>
         \<and> engine w' = \<lparr>remaining = seconds (poses w ! nat (current_index w + 1)),
                         running = True, last_ts = now, timer_active = True\<rparr>
         \<and> pose_info w' = ''Pose '' @ str_int (current_index w + 2)"
    unfolding emit fin start_pose_in_range[OF r]
    by (simp add: play_effect add.assoc get_cue_file_def)
next
  assume "chk_auto_advance w \<and> \<not> current_index w < int (length (poses w)) - 1"
  then show "\<exists>w'. window_emit fs now [Finished_signal] w = Inr w'
         \<and> pose_info w' = ''Session Complete''
         \<and> current_index w' = current_index w
         \<and> engine w' = engine w
         \<and> soundbank w' = (soundbank w)\<lparr>play_log := play_log (soundbank w) @
              [(''over'',
                effects (soundbank w) ''over'' \<noteq> None
                \<and> (\<exists>p. get_cue_file (soundbank w) ''over'' = Some p \<and> path_exists fs p))]\<rparr>"
    by (simp add: on_pose_finished_def Let_def play_effect)
next
  assume "\<not> chk_auto_advance w"
  then show "\<exists>w'. window_emit fs now [Finished_signal] w = Inr w'
         \<and> pose_info w' = ''Pose Finished (Manual Advance)''
         \<and> current_index w' = current_index w
         \<and> engine w' = engine w
         \<and> soundbank w' = (soundbank w)\<lparr>play_log := play_log (soundbank w) @
              [(''over'',
                effects (soundbank w) ''over'' \<noteq> None
                \<and> (\<exists>p. get_cue_file (soundbank w) ''over'' = Some p \<and> path_exists fs p))]\<rparr>"
    by (simp add: on_pose_finished_def Let_def play_effect)
qed


theorem completion_transitions_witness:
  "chk_auto_advance ((window_init [])\<lparr>poses := [Pose 5, Pose 3], current_index := 0,
               soundbank := set_cue_file
                  [[''s'', ''over.wav''] \<mapsto> File ''RIFF'' 2024, [''s'', ''go.wav''] \<mapsto> File ''RIFF'' 2024]
                  (set_cue_file
                     [[''s'', ''over.wav''] \<mapsto> File ''RIFF'' 2024, [''s'', ''go.wav''] \<mapsto> File ''RIFF'' 2024]
                     (soundbank_init [''s'']) ''over'' (Some [''s'', ''over.wav'']))
                  ''pose_start'' (Some [''s'', ''go.wav''])\<rparr>)
   \<and> (\<exists>w'. window_emit [[''s'', ''over.wav''] \<mapsto> File ''RIFF'' 2024, [''s'', ''go.wav''] \<mapsto> File ''RIFF'' 2024] 9 [Finished_signal]
            ((window_init [])\<lparr>poses := [Pose 5, Pose 3], current_index := 0,
               soundbank := set_cue_file
                  [[''s'', ''over.wav''] \<mapsto> File ''RIFF'' 2024, [''s'', ''go.wav''] \<mapsto> File ''RIFF'' 2024]
                  (set_cue_file
                     [[''s'', ''over.wav''] \<mapsto> File ''RIFF'' 2024, [''s'', ''go.wav''] \<mapsto> File ''RIFF'' 2024]
                     (soundbank_init [''s'']) ''over'' (Some [''s'', ''over.wav'']))
                  ''pose_start'' (Some [''s'', ''go.wav''])\<rparr>) = Inr w'
         \<and> current_index w' = 1
         \<and> play_log (soundbank w') = [(''over'', True), (''pose_start'', True)]
         \<and> engine w' = \<lparr>remaining = 3, running = True, last_ts = 9, timer_active = True\<rparr>
         \<and> pose_info w' = ''Pose 2'')
   \<and> (\<exists>w'. window_emit [[''s'', ''over.wav''] \<mapsto> File ''RIFF'' 2024, [''s'', ''go.wav''] \<mapsto> File ''RIFF'' 2024] 9 [Finished_signal]
            ((window_init [])\<lparr>poses := [Pose 5, Pose 3], current_index := 1,
               soundbank := set_cue_file
                  [[''s'', ''over.wav''] \<mapsto> File ''RIFF'' 2024, [''s'', ''go.wav''] \<mapsto> File ''RIFF'' 2024]
                  (set_cue_file
                     [[''s'', ''over.wav''] \<mapsto> File ''RIFF'' 2024, [''s'', ''go.wav''] \<mapsto> File ''RIFF'' 2024]
                     (soundbank_init [''s'']) ''over'' (Some [''s'', ''over.wav'']))
                  ''pose_start'' (Some [''s'', ''go.wav''])\<rparr>) = Inr w'
         \<and> pose_info w' = ''Session Complete''
         \<and> current_index w' = 1
         \<and> engine w' = engine_init
         \<and> play_log (soundbank w') = [(''over'', True)])
   \<and> \<not> chk_auto_advance ((window_init [])\<lparr>poses := [Pose 5, Pose 3], current_index := 0,
                               chk_auto_advance := False\<rparr>)
   \<and> (\<exists>w'. window_emit Map.empty 9 [Finished_signal]
               ((window_init [])\<lparr>poses := [Pose 5, Pose 3], current_index := 0,
                                 chk_auto_advance := False\<rparr>) = Inr w'
         \<and> pose_info w' = ''Pose Finished (Manual Advance)''
         \<and> current_index w' = 0
         \<and> engine w' = engine_init
         \<and> play_log (soundbank w') = [(''over'', False)])"
proof -
  let ?fs = "[[''s'', ''over.wav''] \<mapsto> File ''RIFF'' 2024, [''s'', ''go.wav''] \<mapsto> File ''RIFF'' 2024]"
  let ?sb = "set_cue_file ?fs
     (set_cue_file ?fs (soundbank_init [''s'']) ''over'' (Some [''s'', ''over.wav'']))
     ''pose_start'' (Some [''s'', ''go.wav''])"
  let ?a = "(window_init [])\<lparr>poses := [Pose 5, Pose 3], current_index := 0, soundbank := ?sb\<rparr>"
  let ?b = "(window_init [])\<lparr>poses := [Pose 5, Pose 3], current_index := 1, soundbank := ?sb\<rparr>"
  let ?c = "(window_init [])\<lparr>poses := [Pose 5, Pose 3], current_index := 0,
                               chk_auto_advance := False\<rparr>"
  have auto_on: "chk_auto_advance ?a" "chk_auto_advance ?b" by (simp_all add: window_init_def)
  have auto_off: "\<not> chk_auto_advance ?c" by simp
  have eng: "engine (window_init []) = engine_init" by (simp add: window_init_def)
  have two: "str_int 2 = ''2''" by (simp add: str_int_def digits10.simps digit_char_def)
  have sb: "effects ?sb ''over'' = Some (Some [''s'', ''over.wav''])"
    "get_cue_file ?sb ''over'' = Some [''s'', ''over.wav'']"
    "effects ?sb ''pose_start'' = Some (Some [''s'', ''go.wav''])"
    "get_cue_file ?sb ''pose_start'' = Some [''s'', ''go.wav'']"
    "play_log ?sb = []"
    by (simp_all add: set_cue_file_def soundbank_init_def CUES_def get_cue_file_def
        path_exists_def Let_def)
  have ex: "path_exists ?fs [''s'', ''over.wav'']" "path_exists ?fs [''s'', ''go.wav'']"
    by (simp_all add: path_exists_def)
  have sb0: "get_cue_file (soundbank ?c) ''over'' = None" "play_log (soundbank ?c) = []"
    by (simp_all add: window_init_def soundbank_init_def CUES_def get_cue_file_def)
  have ga: "chk_auto_advance ?a \<and> - 1 \<le> current_index ?a
      \<and> current_index ?a < int (length (poses ?a)) - 1"
    using auto_on by simp
  have gb: "chk_auto_advance ?b \<and> \<not> current_index ?b < int (length (poses ?b)) - 1"
    using auto_on by simp
  from completion_transitions[of ?a ?fs 9, THEN conjunct1, THEN mp, OF ga] obtain wa where
    a: "window_emit ?fs 9 [Finished_signal] ?a = Inr wa" "current_index wa = current_index ?a + 1"
      "soundbank wa = (soundbank ?a)\<lparr>play_log := play_log (soundbank ?a) @
              [(''over'',
                effects (soundbank ?a) ''over'' \<noteq> None
                \<and> (\<exists>p. get_cue_file (soundbank ?a) ''over'' = Some p \<and> path_exists ?fs p)),
               (''pose_start'',
                effects (soundbank ?a) ''pose_start'' \<noteq> None
                \<and> (\<exists>p. get_cue_file (soundbank ?a) ''pose_start'' = Some p
                       \<and> path_exists ?fs p))]\<rparr>"
      "engine wa = \<lparr>remaining = seconds (poses ?a ! nat (current_index ?a + 1)),
                         running = True, last_ts = 9, timer_active = True\<rparr>"
      "pose_info wa = ''Pose '' @ str_int (current_index ?a + 2)"
    by (elim exE conjE)
  have a_log: "play_log (soundbank wa) = [(''over'', True), (''pose_start'', True)]"
    unfolding a(3) using sb ex by simp
  have a_all: "\<exists>w'. window_emit ?fs 9 [Finished_signal] ?a = Inr w'
         \<and> current_index w' = 1
         \<and> play_log (soundbank w') = [(''over'', True), (''pose_start'', True)]
         \<and> engine w' = \<lparr>remaining = 3, running = True, last_ts = 9, timer_active = True\<rparr>
         \<and> pose_info w' = ''Pose 2''"
    using a(1,2,4,5) a_log two by (intro exI[of _ wa]) simp
  from completion_transitions[of ?b ?fs 9, THEN conjunct2, THEN conjunct1, THEN mp, OF gb] obtain wb where
    b: "window_emit ?fs 9 [Finished_signal] ?b = Inr wb" "pose_info wb = ''Session Complete''"
      "current_index wb = current_index ?b" "engine wb = engine ?b"
      "soundbank wb = (soundbank ?b)\<lparr>play_log := play_log (soundbank ?b) @
              [(''over'',
                effects (soundbank ?b) ''over'' \<noteq> None
                \<and> (\<exists>p. get_cue_file (soundbank ?b) ''over'' = Some p \<and> path_exists ?fs p))]\<rparr>"
    by (elim exE conjE)
  have b_log: "play_log (soundbank wb) = [(''over'', True)]"
    unfolding b(5) using sb ex by simp
  have b_all: "\<exists>w'. window_emit ?fs 9 [Finished_signal] ?b = Inr w'
         \<and> pose_info w' = ''Session Complete''
         \<and> current_index w' = 1
         \<and> engine w' = engine_init
         \<and> play_log (soundbank w') = [(''over'', True)]"
    using b(1,2,3,4) b_log eng by (intro exI[of _ wb]) simp
  from completion_transitions[of ?c Map.empty 9, THEN conjunct2, THEN conjunct2, THEN mp, OF auto_off] obtain wc where
    c: "window_emit Map.empty 9 [Finished_signal] ?c = Inr wc"
      "pose_info wc = ''Pose Finished (Manual Advance)''"
      "current_index wc = current_index ?c" "engine wc = engine ?c"
      "soundbank wc = (soundbank ?c)\<lparr>play_log := play_log (soundbank ?c) @
              [(''over'',
                effects (soundbank ?c) ''over'' \<noteq> None
                \<and> (\<exists>p. get_cue_file (soundbank ?c) ''over'' = Some p
                       \<and> path_exists Map.empty p))]\<rparr>"
    by (elim exE conjE)
  have c_log: "play_log (soundbank wc) = [(''over'', False)]"
    unfolding c(5) using sb0 by simp
  have c_all: "\<exists>w'. window_emit Map.empty 9 [Finished_signal] ?c = Inr w'
         \<and> pose_info w' = ''Pose Finished (Manual Advance)''
         \<and> current_index w' = 0
         \<and> engine w' = engine_init
         \<and> play_log (soundbank w') = [(''over'', False)]"
    using c(1,2,3,4) c_log eng by (intro exI[of _ wc]) simp
  show ?thesis using auto_on(1) a_all b_all auto_off c_all by (intro conjI)
qed

text \<open>
  The scenario of the specification, run on the model with no cue recorded: poses of
  5 and 3 seconds, auto-advance on, one timeout per second. The session plays
  \<^verbatim>\<open>session_start\<close> and \<^verbatim>\<open>pose_start\<close>, the first pose ends at reading 5, \<^verbatim>\<open>over\<close> and
  \<^verbatim>\<open>pose_start\<close> are played, the second pose ends at reading 8, \<^verbatim>\<open>over\<close> is played
  and the session is complete; the later timeouts change nothing.
\<close>

lemma session_scenario:
  "map_sum id (\<lambda>w. (pose_info w, current_index w, map fst (play_log (soundbank w)),
                     display w, engine w))
     (case start_session Map.empty 0 ((window_init [])\<lparr>poses := [Pose 5, Pose 3]\<rparr>) of
        Inl e \<Rightarrow> Inl e
      | Inr w \<Rightarrow> window_run Map.empty [1, 2, 3, 4, 5, 6, 7, 8, 9, 10] w)
   = Inr (''Session Complete'', 1,
          [''session_start'', ''pose_start'', ''over'', ''pose_start'', ''over''],
          ''00:00'',
          \<lparr>remaining = 0, running = False, last_ts = 8, timer_active = False\<rparr>)"
  by (simp add: start_session_def start_pose_def py_index_def engine_start_def
      update_display_def window_timeout_def timer_timeout_def engine_tick_def py_int_def
      on_pose_finished_def play_def window_init_def soundbank_init_def engine_init_def
      seconds_to_hhmmss_def c_int_def format_0d_def digits10.simps digit_char_def str_int_def Let_def)
section \<open>Properties of the archive\<close>









lemma entry_name_Some:
  "entry_name j zf = Some arc \<longleftrightarrow> j = JStr arc \<and> arc \<noteq> [] \<and> arc \<in> set (namelist zf)"
  by (cases j) (auto simp: entry_name_def)

lemma getinfo_present: "name \<in> set (namelist zf) \<Longrightarrow> \<exists>e. getinfo zf name = Some e"
proof -
  assume "name \<in> set (namelist zf)"
  then have "name \<in> fst ` set (rev zf)" by (simp add: namelist_def)
  then have "map_of (rev zf) name \<noteq> None" by (simp add: map_of_eq_None_iff)
  then show ?thesis by (auto simp: getinfo_def)
qed

lemma zip_read_absent:
  "name \<notin> set (namelist zf) \<Longrightarrow> zip_read zf name = Inl KeyError"
proof -
  assume "name \<notin> set (namelist zf)"
  then have "name \<notin> fst ` set (rev zf)" by (simp add: namelist_def)
  then have "map_of (rev zf) name = None" by (simp add: map_of_eq_None_iff)
  then show ?thesis by (simp add: zip_read_def getinfo_def)
qed

lemma set_cue_file_other:
  "k' \<noteq> k \<Longrightarrow> cue_files (set_cue_file fs sb k p) k' = cue_files sb k'
     \<and> effects (set_cue_file fs sb k p) k' = effects sb k'"
  by (simp add: set_cue_file_def Let_def split: option.splits)

lemma set_cue_file_same: "cue_files (set_cue_file fs sb k p) k = Some p"
  by (simp add: set_cue_file_def Let_def split: option.splits)

text \<open>
  What the loop of the import leaves behind, whether it returns or raises: a cue keeps
  its registration and the source of its effect, or it is one of the cues of the loop,
  its manifest value is the name of an entry of the container, and it is registered
  with the file extracted from that entry.
\<close>

lemma import_cues_frame:
  assumes "import_cues h year cues td zf cs (sb, fs) = Inr (sb', fs')
           \<or> import_cues h year cues td zf cs (sb, fs) = Inl (e, (sb', fs'))"
  shows "(cue_files sb' k = cue_files sb k \<and> effects sb' k = effects sb k)
       \<or> (k \<in> fst ` set cs \<and>
            (\<exists>arc. json_get cues k JNull = Inr (JStr arc) \<and> arc \<noteq> []
               \<and> arc \<in> set (namelist zf)
               \<and> cue_files sb' k = Some (Some (path_join td (path_name (Path arc))))))"
  using assms
proof (induction cs arbitrary: sb fs)
  case Nil
  then show ?case by simp
next
  case (Cons c cs)
  obtain k0 n0 where c: "c = (k0, n0)" by (cases c)
  show ?case
  proof (cases "json_get cues k0 JNull")
    case (Inl e0)
    with Cons.prems c show ?thesis by simp
  next
    case (Inr arc_name)
    show ?thesis
    proof (cases "entry_name arc_name zf")
      case None
      with Cons.prems c Inr
      have "import_cues h year cues td zf cs (sb, fs) = Inr (sb', fs')
           \<or> import_cues h year cues td zf cs (sb, fs) = Inl (e, (sb', fs'))" by simp
      from Cons.IH[OF this] show ?thesis by auto
    next
      case (Some arc)
      then have arc: "arc_name = JStr arc" "arc \<noteq> []" "arc \<in> set (namelist zf)"
        by (simp_all add: entry_name_Some)
      let ?name = "path_name (Path arc)"
      let ?dest = "path_join td ?name"
      show ?thesis
      proof (cases "extract_entry h year zf arc ?dest fs")
        case (Inl bad)
        obtain e0 fs0 where "bad = (e0, fs0)" by (cases bad)
        with Inl Cons.prems c Inr Some show ?thesis by (auto simp: Let_def)
      next
        case fs1: (Inr fs1)
        let ?sb1 = "set_cue_file fs1 sb k0 (Some ?dest)"
        from Cons.prems c Inr Some fs1
        have "import_cues h year cues td zf cs (?sb1, fs1) = Inr (sb', fs')
           \<or> import_cues h year cues td zf cs (?sb1, fs1) = Inl (e, (sb', fs'))"
          by (simp add: Let_def)
        from Cons.IH[OF this] have ih:
          "(cue_files sb' k = cue_files ?sb1 k \<and> effects sb' k = effects ?sb1 k)
           \<or> (k \<in> fst ` set cs \<and>
            (\<exists>arc. json_get cues k JNull = Inr (JStr arc) \<and> arc \<noteq> []
               \<and> arc \<in> set (namelist zf)
               \<and> cue_files sb' k = Some (Some (path_join td (path_name (Path arc))))))" .
        show ?thesis
        proof (cases "k = k0")
          case True
          from ih show ?thesis
          proof
            assume "cue_files sb' k = cue_files ?sb1 k \<and> effects sb' k = effects ?sb1 k"
            then have "cue_files sb' k = Some (Some ?dest)"
              using True by (simp add: set_cue_file_same)
            then show ?thesis using True c Inr arc by auto
          next
            assume "k \<in> fst ` set cs \<and>
              (\<exists>arc. json_get cues k JNull = Inr (JStr arc) \<and> arc \<noteq> []
               \<and> arc \<in> set (namelist zf)
               \<and> cue_files sb' k = Some (Some (path_join td (path_name (Path arc)))))"
            then show ?thesis by auto
          qed
        next
          case False
          then show ?thesis using ih set_cue_file_other[of k k0 fs1 sb "Some ?dest"] by auto
        qed
      qed
    qed
  qed
qed

text \<open>
  Claim C8. Whether the import returns or raises, every cue keeps its registration
  (and the source of its effect) unless it is one of the six cues and its manifest
  value is the name of an entry of the container; such a cue ends registered with the
  file extracted from that entry, so a registration is overwritten and never cleared.
  In particular a cue whose manifest value is null or absent keeps its registration.
\<close>

theorem import_soundbank_frame:
  assumes "import_soundbank h stamp year in_path (sb, fs) = Inr (sb', fs')
           \<or> import_soundbank h stamp year in_path (sb, fs) = Inl (e, (sb', fs'))"
  shows "(\<forall>cue.
           (cue_files sb' cue = cue_files sb cue \<and> effects sb' cue = effects sb cue)
         \<or> (cue \<in> set (map fst CUES) \<and>
              (\<exists>zf raw manifest cues arc.
                  open_zip h fs in_path = Inr zf
                \<and> zip_read zf ''manifest.json'' = Inr raw \<and> loads h raw = Inr manifest
                \<and> json_get manifest ''cues'' (JObj []) = Inr cues
                \<and> json_get cues cue JNull = Inr (JStr arc) \<and> arc \<noteq> []
                \<and> arc \<in> set (namelist zf)
                \<and> cue_files sb' cue =
                    Some (Some (path_join (path_join (base_dir sb) (''soundbank_'' @ stamp))
                                  (path_name (Path arc)))))))
       \<and> (\<forall>cue zf raw manifest cues.
             open_zip h fs in_path = Inr zf
           \<and> zip_read zf ''manifest.json'' = Inr raw \<and> loads h raw = Inr manifest
           \<and> json_get manifest ''cues'' (JObj []) = Inr cues
           \<and> json_get cues cue JNull = Inr JNull
           \<longrightarrow> cue_files sb' cue = cue_files sb cue \<and> get_cue_file sb' cue = get_cue_file sb cue)"
proof -
  have main: "(cue_files sb' cue = cue_files sb cue \<and> effects sb' cue = effects sb cue)
         \<or> (cue \<in> set (map fst CUES) \<and>
              (\<exists>zf raw manifest cues arc.
                  open_zip h fs in_path = Inr zf
                \<and> zip_read zf ''manifest.json'' = Inr raw \<and> loads h raw = Inr manifest
                \<and> json_get manifest ''cues'' (JObj []) = Inr cues
                \<and> json_get cues cue JNull = Inr (JStr arc) \<and> arc \<noteq> []
                \<and> arc \<in> set (namelist zf)
                \<and> cue_files sb' cue =
                    Some (Some (path_join (path_join (base_dir sb) (''soundbank_'' @ stamp))
                                  (path_name (Path arc))))))" for cue
  proof (cases "open_zip h fs in_path")
    case (Inl e0)
    with assms show ?thesis by (simp add: import_soundbank_def)
  next
    case zf: (Inr zf)
    show ?thesis
    proof (cases "zip_read zf ''manifest.json''")
      case (Inl e0)
      with assms zf show ?thesis by (simp add: import_soundbank_def)
    next
      case (Inr raw)
      show ?thesis
      proof (cases "loads h raw")
        case (Inl e0)
        with assms zf Inr show ?thesis by (simp add: import_soundbank_def)
      next
        case m: (Inr manifest)
        show ?thesis
        proof (cases "json_get manifest ''cues'' (JObj [])")
          case (Inl e0)
          with assms zf Inr m show ?thesis by (simp add: import_soundbank_def)
        next
          case cues: (Inr cues)
          let ?td = "path_join (base_dir sb) (''soundbank_'' @ stamp)"
          show ?thesis
          proof (cases "make_dirs h year fs ?td")
            case (Inl e0)
            with assms zf Inr m cues show ?thesis by (simp add: import_soundbank_def)
          next
            case fs1: (Inr fs1)
            from assms zf Inr m cues fs1
            have "import_cues h year cues ?td zf CUES (sb, fs1) = Inr (sb', fs')
               \<or> import_cues h year cues ?td zf CUES (sb, fs1) = Inl (e, (sb', fs'))"
              by (simp add: import_soundbank_def)
            from import_cues_frame[OF this, of cue] show ?thesis
              using zf Inr m cues by auto
          qed
        qed
      qed
    qed
  qed
  have null: "cue_files sb' cue = cue_files sb cue \<and> get_cue_file sb' cue = get_cue_file sb cue"
    if "open_zip h fs in_path = Inr zf
           \<and> zip_read zf ''manifest.json'' = Inr raw \<and> loads h raw = Inr manifest
           \<and> json_get manifest ''cues'' (JObj []) = Inr cues
           \<and> json_get cues cue JNull = Inr JNull" for cue zf raw manifest cues
    using main[of cue] that by (auto simp: get_cue_file_def)
  show ?thesis using main null by blast
qed

theorem import_soundbank_frame_witness:
  "\<exists>sb' fs'.
     import_soundbank
       \<lparr>lower = ascii_lower, dumps = (\<lambda>j. ''{}''),
          loads = (\<lambda>raw. Inr (JObj [(''version'', JInt 1),
                    (''cues'', JObj [(''session_start'', JNull), (''over'', JStr ''over.wav'')])])),
          zip_stream = (\<lambda>z. ''PK''), zip_close = (\<lambda>z. ''PK''), zip_abort = (\<lambda>z. []),
          zip_open = (\<lambda>b. Inr [(''over.wav'', Data ''abc''), (''manifest.json'', Data ''{}'')]),
          io_error = (\<lambda>op fs p. None)\<rparr>
       ''s'' 2024 [''in.soundbank'']
       (set_cue_file [[''in.soundbank''] \<mapsto> File ''PK'' 2024] (soundbank_init [''b''])
          ''session_start'' (Some [''b'', ''old.wav'']),
        [[''in.soundbank''] \<mapsto> File ''PK'' 2024])
       = Inr (sb', fs')
     \<and> cue_files sb' ''session_start'' = Some (Some [''b'', ''old.wav''])
     \<and> cue_files sb' ''pose_start'' = Some None
     \<and> cue_files sb' ''over'' = Some (Some [''b'', ''soundbank_s'', ''over.wav''])
     \<and> fs' [''b'', ''soundbank_s'', ''over.wav''] = Some (File ''abc'' 2024)"
proof -
  let ?cues = "JObj [(''session_start'', JNull), (''over'', JStr ''over.wav'')]"
  let ?m = "JObj [(''version'', JInt 1), (''cues'', ?cues)]"
  let ?zf = "[(''over.wav'', Data ''abc''), (''manifest.json'', Data ''{}'')]"
  let ?h = "\<lparr>lower = ascii_lower, dumps = (\<lambda>j. ''{}''),
          loads = (\<lambda>raw. Inr (JObj [(''version'', JInt 1),
                    (''cues'', JObj [(''session_start'', JNull), (''over'', JStr ''over.wav'')])])),
          zip_stream = (\<lambda>z. ''PK''), zip_close = (\<lambda>z. ''PK''), zip_abort = (\<lambda>z. []),
          zip_open = (\<lambda>b. Inr [(''over.wav'', Data ''abc''), (''manifest.json'', Data ''{}'')]),
          io_error = (\<lambda>op fs p. None)\<rparr>"
  let ?fs = "[[''in.soundbank''] \<mapsto> File ''PK'' 2024]"
  let ?sb = "set_cue_file ?fs (soundbank_init [''b'']) ''session_start''
          (Some [''b'', ''old.wav''])"
  let ?dest = "[''b'', ''soundbank_s'', ''over.wav'']"
  let ?fs' = "?fs([''b''] \<mapsto> Dir 2024, [''b'', ''soundbank_s''] \<mapsto> Dir 2024,
                  ?dest \<mapsto> File ''abc'' 2024)"
  let ?sb' = "set_cue_file ?fs' ?sb ''over'' (Some ?dest)"
  have base: "base_dir ?sb = [''b'']"
    by (simp add: set_cue_file_def soundbank_init_def Let_def split: option.splits)
  have oz: "open_zip ?h ?fs [''in.soundbank''] = Inr ?zf" by (simp add: open_zip_def)
  have rd: "zip_read ?zf ''manifest.json'' = Inr ''{}''" by (simp add: zip_read_def getinfo_def)
  have md: "make_dirs ?h 2024 ?fs [''b'', ''soundbank_s'']
              = Inr (?fs([''b''] \<mapsto> Dir 2024, [''b'', ''soundbank_s''] \<mapsto> Dir 2024))"
    by (simp add: make_dirs_def ancestors_def is_file_def upt_rec)
  have ev: "import_soundbank ?h ''s'' 2024 [''in.soundbank''] (?sb, ?fs) = Inr (?sb', ?fs')"
    unfolding import_soundbank_def
    by (simp add: oz rd md base path_join_def CUES_def entry_name_def namelist_def Path_def
        path_name_def extract_entry_def getinfo_def open_write_def Let_def)
  note frame = import_soundbank_frame[OF disjI1[OF ev]]
  have old: "cue_files ?sb ''session_start'' = Some (Some [''b'', ''old.wav''])"
    by (simp add: set_cue_file_same)
  have none: "cue_files ?sb ''pose_start'' = Some None"
    by (simp add: set_cue_file_def soundbank_init_def CUES_def Let_def split: option.splits)
  have a: "cue_files ?sb' ''session_start'' = cue_files ?sb ''session_start''"
    using frame[THEN conjunct2, rule_format, of ?zf "''{}''" ?m ?cues "''session_start''"] oz rd
    by simp
  have b: "cue_files ?sb' ''pose_start'' = cue_files ?sb ''pose_start''"
    using frame[THEN conjunct2, rule_format, of ?zf "''{}''" ?m ?cues "''pose_start''"] oz rd
    by simp
  have c: "cue_files ?sb' ''over'' = Some (Some ?dest)" by (simp add: set_cue_file_same)
  show ?thesis
    using ev a b c old none by (intro exI[of _ ?sb'] exI[of _ ?fs']) simp
qed

lemma CUES_not_empty: "CUES \<noteq> []"
  by (simp add: CUES_def)

lemma import_cues_not_object:
  assumes "\<forall>kvs. cues \<noteq> JObj kvs" and "cs \<noteq> []"
  shows "import_cues h year cues td zf cs st = Inl (AttributeError, st)"
proof -
  obtain k n rest where cs: "cs = (k, n) # rest" using assms(2) by (cases cs) auto
  obtain sb fs where st: "st = (sb, fs)" by (cases st)
  have "json_get cues k JNull = Inl AttributeError" using assms(1) by (cases cues) simp_all
  then show ?thesis by (simp add: cs st)
qed

lemma import_cues_skip:
  assumes "\<forall>k \<in> fst ` set cs. \<forall>arc. map_of kvs k = Some (JStr arc) \<longrightarrow> arc \<notin> set (namelist zf)"
  shows "import_cues h year (JObj kvs) td zf cs st = Inr st"
  using assms
proof (induction cs)
  case Nil
  then show ?case by simp
next
  case (Cons c cs)
  obtain k n where c: "c = (k, n)" by (cases c)
  obtain sb fs where st: "st = (sb, fs)" by (cases st)
  have "entry_name (case map_of kvs k of None \<Rightarrow> JNull | Some v \<Rightarrow> v) zf = None"
  proof (cases "entry_name (case map_of kvs k of None \<Rightarrow> JNull | Some v \<Rightarrow> v) zf")
    case None
    then show ?thesis .
  next
    case (Some arc)
    then have "(case map_of kvs k of None \<Rightarrow> JNull | Some v \<Rightarrow> v) = JStr arc"
      and "arc \<in> set (namelist zf)" by (simp_all add: entry_name_Some)
    then have "map_of kvs k = Some (JStr arc)" by (simp split: option.splits)
    with Cons.prems c \<open>arc \<in> set (namelist zf)\<close> show ?thesis by auto
  qed
  moreover have "import_cues h year (JObj kvs) td zf cs st = Inr st"
    using Cons by simp
  ultimately show ?case by (simp add: c st)
qed

text \<open>
  When the loop of the import raises, it has gone through the cues before the failing
  one without an error, and it stops at a cue whose manifest value is the name of an
  entry of the container, in the extraction of that entry: the bank is the one the
  cues before have left.
\<close>

lemma import_cues_failure:
  assumes "import_cues h year (JObj kvs) td zf cs (sb, fs) = Inl (e, (sb', fs'))"
  shows "\<exists>pre k n post arc fsp. cs = pre @ (k, n) # post
     \<and> import_cues h year (JObj kvs) td zf pre (sb, fs) = Inr (sb', fsp)
     \<and> map_of kvs k = Some (JStr arc) \<and> arc \<noteq> [] \<and> arc \<in> set (namelist zf)
     \<and> extract_entry h year zf arc (path_join td (path_name (Path arc))) fsp = Inl (e, fs')"
  using assms
proof (induction cs arbitrary: sb fs)
  case Nil
  then show ?case by simp
next
  case (Cons c cs)
  obtain k0 n0 where c: "c = (k0, n0)" by (cases c)
  let ?v = "case map_of kvs k0 of None \<Rightarrow> JNull | Some v \<Rightarrow> v"
  have get: "json_get (JObj kvs) k0 JNull = Inr ?v" by simp
  show ?case
  proof (cases "entry_name ?v zf")
    case None
    with Cons.prems c
    have "import_cues h year (JObj kvs) td zf cs (sb, fs) = Inl (e, (sb', fs'))" by simp
    from Cons.IH[OF this] obtain pre k n post arc fsp where ih:
      "cs = pre @ (k, n) # post"
      "import_cues h year (JObj kvs) td zf pre (sb, fs) = Inr (sb', fsp)"
      "map_of kvs k = Some (JStr arc)" "arc \<noteq> []" "arc \<in> set (namelist zf)"
      "extract_entry h year zf arc (path_join td (path_name (Path arc))) fsp = Inl (e, fs')"
      by (elim exE conjE)
    have 1: "c # cs = (c # pre) @ (k, n) # post" using ih(1) by simp
    have 2: "import_cues h year (JObj kvs) td zf (c # pre) (sb, fs) = Inr (sb', fsp)"
      using ih(2) None by (simp add: c)
    show ?thesis
      by (intro exI[of _ "c # pre"] exI[of _ k] exI[of _ n] exI[of _ post] exI[of _ arc]
          exI[of _ fsp] conjI) (rule 1, rule 2, rule ih(3), rule ih(4), rule ih(5), rule ih(6))
  next
    case (Some arc0)
    then have arc0: "?v = JStr arc0" "arc0 \<noteq> []" "arc0 \<in> set (namelist zf)"
      by (simp_all add: entry_name_Some)
    then have m0: "map_of kvs k0 = Some (JStr arc0)" by (simp split: option.splits)
    let ?dest = "path_join td (path_name (Path arc0))"
    show ?thesis
    proof (cases "extract_entry h year zf arc0 ?dest fs")
      case (Inl bad)
      obtain e0 fs0 where bad: "bad = (e0, fs0)" by (cases bad)
      from Cons.prems c Some Inl bad have eq: "e0 = e" "sb = sb'" "fs0 = fs'"
        by (simp_all add: Let_def)
      have 1: "c # cs = [] @ (k0, n0) # cs" by (simp add: c)
      have 2: "import_cues h year (JObj kvs) td zf [] (sb, fs) = Inr (sb', fs)"
        using eq by simp
      have 6: "extract_entry h year zf arc0 ?dest fs = Inl (e, fs')" using Inl bad eq by simp
      show ?thesis
        by (intro exI[of _ "[]"] exI[of _ k0] exI[of _ n0] exI[of _ cs] exI[of _ arc0]
            exI[of _ fs] conjI) (rule 1, rule 2, rule m0, rule arc0(2), rule arc0(3), rule 6)
    next
      case (Inr fs1)
      let ?sb1 = "set_cue_file fs1 sb k0 (Some ?dest)"
      from Cons.prems c Some Inr
      have "import_cues h year (JObj kvs) td zf cs (?sb1, fs1) = Inl (e, (sb', fs'))"
        by (simp add: Let_def)
      from Cons.IH[OF this] obtain pre k n post arc fsp where ih:
        "cs = pre @ (k, n) # post"
        "import_cues h year (JObj kvs) td zf pre (?sb1, fs1) = Inr (sb', fsp)"
        "map_of kvs k = Some (JStr arc)" "arc \<noteq> []" "arc \<in> set (namelist zf)"
        "extract_entry h year zf arc (path_join td (path_name (Path arc))) fsp = Inl (e, fs')"
        by (elim exE conjE)
      have 1: "c # cs = (c # pre) @ (k, n) # post" using ih(1) by simp
      have 2: "import_cues h year (JObj kvs) td zf (c # pre) (sb, fs) = Inr (sb', fsp)"
        using ih(2) Some Inr by (simp add: c Let_def)
      show ?thesis
        by (intro exI[of _ "c # pre"] exI[of _ k] exI[of _ n] exI[of _ post] exI[of _ arc]
            exI[of _ fsp] conjI) (rule 1, rule 2, rule ih(3), rule ih(4), rule ih(5), rule ih(6))
    qed
  qed
qed

text \<open>
  Claim C3, as the code has it. \<^verbatim>\<open>import_soundbank\<close> has no error class of its own:
  it raises what the failing operation raises.
  \<^item> When the archive cannot be opened, the exception of \<^verbatim>\<open>zipfile\<close>; \<^verbatim>\<open>KeyError\<close>
    when the container has no \<^verbatim>\<open>manifest.json\<close>; the exception of the decoding or of
    \<^verbatim>\<open>json.loads\<close> when the manifest cannot be parsed; \<^verbatim>\<open>AttributeError\<close> when the
    parsed manifest is not an object; the exception of \<^verbatim>\<open>mkdir\<close> when the target
    directory cannot be created. The bank and the files are then left as they were.
  \<^item> \<^verbatim>\<open>AttributeError\<close> when the \<^verbatim>\<open>cues\<close> value is not an object; the target directory
    has been created, the bank is left as it was.
  \<^item> A manifest without a \<^verbatim>\<open>cues\<close> key is read as one with no cues, and a cue whose
    value is not the name of an entry of the container is skipped: when no cue names
    an entry, the import returns and leaves the bank as it was.
  \<^item> When the \<^verbatim>\<open>cues\<close> value is an object (and the archive does not lie where the
    files are extracted), the import returns, or it raises what the extraction of an
    entry raises, at a cue whose value names an entry of the container: the loop has
    then gone through the cues before that one without an error, and the bank is the
    one they have left, so that no cue from the failing one on has changed its
    registration.
\<close>

theorem import_soundbank_outcomes:
  "(\<forall>e. open_zip h (snd st) in_path = Inl e \<longrightarrow>
      import_soundbank h stamp year in_path st = Inl (e, st))
   \<and> (\<forall>zf. open_zip h (snd st) in_path = Inr zf \<and> ''manifest.json'' \<notin> set (namelist zf) \<longrightarrow>
      import_soundbank h stamp year in_path st = Inl (KeyError, st))
   \<and> (\<forall>zf raw e. open_zip h (snd st) in_path = Inr zf
        \<and> zip_read zf ''manifest.json'' = Inr raw \<and> loads h raw = Inl e \<longrightarrow>
      import_soundbank h stamp year in_path st = Inl (e, st))
   \<and> (\<forall>zf raw manifest. open_zip h (snd st) in_path = Inr zf
        \<and> zip_read zf ''manifest.json'' = Inr raw \<and> loads h raw = Inr manifest
        \<and> (\<forall>kvs. manifest \<noteq> JObj kvs) \<longrightarrow>
      import_soundbank h stamp year in_path st = Inl (AttributeError, st))
   \<and> (\<forall>zf raw manifest cues e. open_zip h (snd st) in_path = Inr zf
        \<and> zip_read zf ''manifest.json'' = Inr raw \<and> loads h raw = Inr manifest
        \<and> json_get manifest ''cues'' (JObj []) = Inr cues
        \<and> make_dirs h year (snd st) (path_join (base_dir (fst st)) (''soundbank_'' @ stamp)) = Inl e \<longrightarrow>
      import_soundbank h stamp year in_path st = Inl (e, st))
   \<and> (\<forall>zf raw manifest cues fs1. open_zip h (snd st) in_path = Inr zf
        \<and> zip_read zf ''manifest.json'' = Inr raw \<and> loads h raw = Inr manifest
        \<and> json_get manifest ''cues'' (JObj []) = Inr cues \<and> (\<forall>kvs. cues \<noteq> JObj kvs)
        \<and> make_dirs h year (snd st) (path_join (base_dir (fst st)) (''soundbank_'' @ stamp)) = Inr fs1 \<longrightarrow>
      import_soundbank h stamp year in_path st = Inl (AttributeError, (fst st, fs1)))
   \<and> (\<forall>zf raw manifest kvs fs1. open_zip h (snd st) in_path = Inr zf
        \<and> zip_read zf ''manifest.json'' = Inr raw \<and> loads h raw = Inr manifest
        \<and> json_get manifest ''cues'' (JObj []) = Inr (JObj kvs)
        \<and> make_dirs h year (snd st) (path_join (base_dir (fst st)) (''soundbank_'' @ stamp)) = Inr fs1
        \<and> (\<forall>cue \<in> set (map fst CUES). \<forall>arc.
               map_of kvs cue = Some (JStr arc) \<longrightarrow> arc \<notin> set (namelist zf)) \<longrightarrow>
      import_soundbank h stamp year in_path st = Inr (fst st, fs1))
   \<and> (\<forall>zf raw manifest kvs fs1. open_zip h (snd st) in_path = Inr zf
        \<and> zip_read zf ''manifest.json'' = Inr raw \<and> loads h raw = Inr manifest
        \<and> json_get manifest ''cues'' (JObj []) = Inr (JObj kvs)
        \<and> make_dirs h year (snd st) (path_join (base_dir (fst st)) (''soundbank_'' @ stamp)) = Inr fs1
        \<and> (\<forall>name. path_join (path_join (base_dir (fst st)) (''soundbank_'' @ stamp)) name \<noteq> in_path) \<longrightarrow>
      (\<exists>st'. import_soundbank h stamp year in_path st = Inr st')
      \<or> (\<exists>pre k n post arc e sbp fsp fs'.
            CUES = pre @ (k, n) # post
          \<and> import_cues h year (JObj kvs) (path_join (base_dir (fst st)) (''soundbank_'' @ stamp)) zf pre (fst st, fs1) = Inr (sbp, fsp)
          \<and> (\<forall>cue. cue \<notin> fst ` set pre \<longrightarrow> cue_files sbp cue = cue_files (fst st) cue)
          \<and> map_of kvs k = Some (JStr arc) \<and> arc \<noteq> [] \<and> arc \<in> set (namelist zf)
          \<and> extract_entry h year zf arc
                (path_join (path_join (base_dir (fst st)) (''soundbank_'' @ stamp)) (path_name (Path arc))) fsp = Inl (e, fs')
          \<and> import_soundbank h stamp year in_path st = Inl (e, (sbp, fs'))))"
proof (intro conjI allI impI)
  fix e
  assume "open_zip h (snd st) in_path = Inl e"
  then show "import_soundbank h stamp year in_path st = Inl (e, st)"
    by (simp add: import_soundbank_def)
next
  fix zf
  assume "open_zip h (snd st) in_path = Inr zf \<and> ''manifest.json'' \<notin> set (namelist zf)"
  then show "import_soundbank h stamp year in_path st = Inl (KeyError, st)"
    by (simp add: import_soundbank_def zip_read_absent)
next
  fix zf raw e
  assume "open_zip h (snd st) in_path = Inr zf
        \<and> zip_read zf ''manifest.json'' = Inr raw \<and> loads h raw = Inl e"
  then show "import_soundbank h stamp year in_path st = Inl (e, st)"
    by (simp add: import_soundbank_def)
next
  fix zf raw manifest
  assume a: "open_zip h (snd st) in_path = Inr zf
        \<and> zip_read zf ''manifest.json'' = Inr raw \<and> loads h raw = Inr manifest
        \<and> (\<forall>kvs. manifest \<noteq> JObj kvs)"
  then have "json_get manifest ''cues'' (JObj []) = Inl AttributeError"
    by (cases manifest) simp_all
  with a show "import_soundbank h stamp year in_path st = Inl (AttributeError, st)"
    by (simp add: import_soundbank_def)
next
  fix zf raw manifest cues e
  assume "open_zip h (snd st) in_path = Inr zf
        \<and> zip_read zf ''manifest.json'' = Inr raw \<and> loads h raw = Inr manifest
        \<and> json_get manifest ''cues'' (JObj []) = Inr cues
        \<and> make_dirs h year (snd st) (path_join (base_dir (fst st)) (''soundbank_'' @ stamp)) = Inl e"
  then show "import_soundbank h stamp year in_path st = Inl (e, st)"
    by (simp add: import_soundbank_def)
next
  fix zf raw manifest cues fs1
  assume "open_zip h (snd st) in_path = Inr zf
        \<and> zip_read zf ''manifest.json'' = Inr raw \<and> loads h raw = Inr manifest
        \<and> json_get manifest ''cues'' (JObj []) = Inr cues \<and> (\<forall>kvs. cues \<noteq> JObj kvs)
        \<and> make_dirs h year (snd st) (path_join (base_dir (fst st)) (''soundbank_'' @ stamp)) = Inr fs1"
  then show "import_soundbank h stamp year in_path st = Inl (AttributeError, (fst st, fs1))"
    by (simp add: import_soundbank_def import_cues_not_object CUES_not_empty)
next
  fix zf raw manifest kvs fs1
  assume a: "open_zip h (snd st) in_path = Inr zf
        \<and> zip_read zf ''manifest.json'' = Inr raw \<and> loads h raw = Inr manifest
        \<and> json_get manifest ''cues'' (JObj []) = Inr (JObj kvs)
        \<and> make_dirs h year (snd st) (path_join (base_dir (fst st)) (''soundbank_'' @ stamp)) = Inr fs1
        \<and> (\<forall>cue \<in> set (map fst CUES). \<forall>arc.
               map_of kvs cue = Some (JStr arc) \<longrightarrow> arc \<notin> set (namelist zf))"
  then have "\<forall>k \<in> fst ` set CUES. \<forall>arc.
               map_of kvs k = Some (JStr arc) \<longrightarrow> arc \<notin> set (namelist zf)" by simp
  from import_cues_skip[OF this]
  have "import_cues h year (JObj kvs) (path_join (base_dir (fst st)) (''soundbank_'' @ stamp)) zf CUES (fst st, fs1) = Inr (fst st, fs1)" .
  with a show "import_soundbank h stamp year in_path st = Inr (fst st, fs1)"
    by (simp add: import_soundbank_def)
next
  fix zf raw manifest kvs fs1
  assume a: "open_zip h (snd st) in_path = Inr zf
        \<and> zip_read zf ''manifest.json'' = Inr raw \<and> loads h raw = Inr manifest
        \<and> json_get manifest ''cues'' (JObj []) = Inr (JObj kvs)
        \<and> make_dirs h year (snd st) (path_join (base_dir (fst st)) (''soundbank_'' @ stamp)) = Inr fs1
        \<and> (\<forall>name. path_join (path_join (base_dir (fst st)) (''soundbank_'' @ stamp)) name \<noteq> in_path)"
  let ?td = "(path_join (base_dir (fst st)) (''soundbank_'' @ stamp))"
  have eq: "import_soundbank h stamp year in_path st = import_cues h year (JObj kvs) ?td zf CUES (fst st, fs1)"
    using a by (simp add: import_soundbank_def)
  show "(\<exists>st'. import_soundbank h stamp year in_path st = Inr st')
      \<or> (\<exists>pre k n post arc e sbp fsp fs'.
            CUES = pre @ (k, n) # post
          \<and> import_cues h year (JObj kvs) (path_join (base_dir (fst st)) (''soundbank_'' @ stamp)) zf pre (fst st, fs1) = Inr (sbp, fsp)
          \<and> (\<forall>cue. cue \<notin> fst ` set pre \<longrightarrow> cue_files sbp cue = cue_files (fst st) cue)
          \<and> map_of kvs k = Some (JStr arc) \<and> arc \<noteq> [] \<and> arc \<in> set (namelist zf)
          \<and> extract_entry h year zf arc
                (path_join (path_join (base_dir (fst st)) (''soundbank_'' @ stamp)) (path_name (Path arc))) fsp = Inl (e, fs')
          \<and> import_soundbank h stamp year in_path st = Inl (e, (sbp, fs')))"
  proof (cases "import_cues h year (JObj kvs) ?td zf CUES (fst st, fs1)")
    case (Inr st')
    then show ?thesis unfolding eq by simp
  next
    case (Inl bad)
    obtain e sbp fs' where bad: "bad = (e, (sbp, fs'))" by (cases bad) auto
    from import_cues_failure[OF Inl[unfolded bad]] obtain pre k n post arc fsp where f:
      "CUES = pre @ (k, n) # post"
      "import_cues h year (JObj kvs) ?td zf pre (fst st, fs1) = Inr (sbp, fsp)"
      "map_of kvs k = Some (JStr arc)" "arc \<noteq> []" "arc \<in> set (namelist zf)"
      "extract_entry h year zf arc (path_join ?td (path_name (Path arc))) fsp = Inl (e, fs')"
      by (elim exE conjE)
    have frame: "\<forall>cue. cue \<notin> fst ` set pre \<longrightarrow> cue_files sbp cue = cue_files (fst st) cue"
    proof (intro allI impI)
      fix cue assume "cue \<notin> fst ` set pre"
      with import_cues_frame[OF disjI1[OF f(2)], of cue]
      show "cue_files sbp cue = cue_files (fst st) cue" by auto
    qed
    have res: "import_soundbank h stamp year in_path st = Inl (e, (sbp, fs'))" unfolding eq Inl bad by (rule refl)
    show ?thesis
      by (intro disjI2 exI[of _ pre] exI[of _ k] exI[of _ n] exI[of _ post] exI[of _ arc]
          exI[of _ e] exI[of _ sbp] exI[of _ fsp] exI[of _ fs'] conjI)
         (rule f(1), rule f(2), rule frame, rule f(3), rule f(4), rule f(5), rule f(6), rule res)
  qed
qed

theorem import_soundbank_outcomes_witness:
  "''manifest.json'' \<notin> set (namelist [(''over.wav'', Data ''abc'')])
   \<and> import_soundbank
        \<lparr>lower = ascii_lower, dumps = (\<lambda>j. ''{}''), loads = (\<lambda>raw. Inl ValueError),
          zip_stream = (\<lambda>z. ''PK''), zip_close = (\<lambda>z. ''PK''), zip_abort = (\<lambda>z. []),
          zip_open = (\<lambda>b. Inr [(''over.wav'', Data ''abc'')]),
          io_error = (\<lambda>op fs p. None)\<rparr>
        ''s'' 2024 [''in.soundbank'']
        (soundbank_init [''b''], [[''in.soundbank''] \<mapsto> File ''PK'' 2024])
      = Inl (KeyError, (soundbank_init [''b''], [[''in.soundbank''] \<mapsto> File ''PK'' 2024]))
   \<and> import_soundbank
        \<lparr>lower = ascii_lower, dumps = (\<lambda>j. ''{}''), loads = (\<lambda>raw. Inl ValueError),
          zip_stream = (\<lambda>z. ''PK''), zip_close = (\<lambda>z. ''PK''), zip_abort = (\<lambda>z. []),
          zip_open = (\<lambda>b. Inr [(''manifest.json'', Data ''{'')]),
          io_error = (\<lambda>op fs p. None)\<rparr>
        ''s'' 2024 [''in.soundbank'']
        (soundbank_init [''b''], [[''in.soundbank''] \<mapsto> File ''PK'' 2024])
      = Inl (ValueError, (soundbank_init [''b''], [[''in.soundbank''] \<mapsto> File ''PK'' 2024]))
   \<and> import_soundbank
        \<lparr>lower = ascii_lower, dumps = (\<lambda>j. ''{}''), loads = (\<lambda>raw. Inr (JArr [])),
          zip_stream = (\<lambda>z. ''PK''), zip_close = (\<lambda>z. ''PK''), zip_abort = (\<lambda>z. []),
          zip_open = (\<lambda>b. Inr [(''manifest.json'', Data ''[]'')]),
          io_error = (\<lambda>op fs p. None)\<rparr>
        ''s'' 2024 [''in.soundbank'']
        (soundbank_init [''b''], [[''in.soundbank''] \<mapsto> File ''PK'' 2024])
      = Inl (AttributeError, (soundbank_init [''b''], [[''in.soundbank''] \<mapsto> File ''PK'' 2024]))
   \<and> import_soundbank
        \<lparr>lower = ascii_lower, dumps = (\<lambda>j. ''{}''), loads = (\<lambda>raw. Inr (JObj [(''cues'', JObj [(''session_start'', JStr ''a.wav''), (''over'', JStr ''..'')])])),
          zip_stream = (\<lambda>z. ''PK''), zip_close = (\<lambda>z. ''PK''), zip_abort = (\<lambda>z. []),
          zip_open = (\<lambda>b. Inr [(''a.wav'', Data ''abc''), (''..'', Data ''x''), (''manifest.json'', Data ''{}'')]),
          io_error = (\<lambda>op fs p. None)\<rparr>
        ''s'' 2024 [''in.soundbank'']
        (soundbank_init [''b''], [[''in.soundbank''] \<mapsto> File ''PK'' 2024])
      = Inl (OSError, (set_cue_file
           [[''in.soundbank''] \<mapsto> File ''PK'' 2024, [''b''] \<mapsto> Dir 2024,
            [''b'', ''soundbank_s''] \<mapsto> Dir 2024,
            [''b'', ''soundbank_s'', ''a.wav''] \<mapsto> File ''abc'' 2024]
           (soundbank_init [''b'']) ''session_start'' (Some [''b'', ''soundbank_s'', ''a.wav''])),
           [[''in.soundbank''] \<mapsto> File ''PK'' 2024, [''b''] \<mapsto> Dir 2024,
            [''b'', ''soundbank_s''] \<mapsto> Dir 2024,
            [''b'', ''soundbank_s'', ''a.wav''] \<mapsto> File ''abc'' 2024])
   \<and> (\<exists>pre k n post arc fsp.
         CUES = pre @ (k, n) # post
       \<and> import_cues
           \<lparr>lower = ascii_lower, dumps = (\<lambda>j. ''{}''), loads = (\<lambda>raw. Inr (JObj [(''cues'', JObj [(''session_start'', JStr ''a.wav''), (''over'', JStr ''..'')])])),
          zip_stream = (\<lambda>z. ''PK''), zip_close = (\<lambda>z. ''PK''), zip_abort = (\<lambda>z. []),
          zip_open = (\<lambda>b. Inr [(''a.wav'', Data ''abc''), (''..'', Data ''x''), (''manifest.json'', Data ''{}'')]),
          io_error = (\<lambda>op fs p. None)\<rparr>
           2024 (JObj [(''session_start'', JStr ''a.wav''), (''over'', JStr ''..'')]) [''b'', ''soundbank_s'']
           [(''a.wav'', Data ''abc''), (''..'', Data ''x''), (''manifest.json'', Data ''{}'')] pre
           (soundbank_init [''b''],
            [[''in.soundbank''] \<mapsto> File ''PK'' 2024, [''b''] \<mapsto> Dir 2024,
            [''b'', ''soundbank_s''] \<mapsto> Dir 2024])
          = Inr ((set_cue_file
           [[''in.soundbank''] \<mapsto> File ''PK'' 2024, [''b''] \<mapsto> Dir 2024,
            [''b'', ''soundbank_s''] \<mapsto> Dir 2024,
            [''b'', ''soundbank_s'', ''a.wav''] \<mapsto> File ''abc'' 2024]
           (soundbank_init [''b'']) ''session_start'' (Some [''b'', ''soundbank_s'', ''a.wav''])), fsp)
       \<and> map_of [(''session_start'', JStr ''a.wav''), (''over'', JStr ''..'')] k = Some (JStr arc)
       \<and> arc \<in> set (namelist [(''a.wav'', Data ''abc''), (''..'', Data ''x''), (''manifest.json'', Data ''{}'')])
       \<and> extract_entry
           \<lparr>lower = ascii_lower, dumps = (\<lambda>j. ''{}''), loads = (\<lambda>raw. Inr (JObj [(''cues'', JObj [(''session_start'', JStr ''a.wav''), (''over'', JStr ''..'')])])),
          zip_stream = (\<lambda>z. ''PK''), zip_close = (\<lambda>z. ''PK''), zip_abort = (\<lambda>z. []),
          zip_open = (\<lambda>b. Inr [(''a.wav'', Data ''abc''), (''..'', Data ''x''), (''manifest.json'', Data ''{}'')]),
          io_error = (\<lambda>op fs p. None)\<rparr>
           2024 [(''a.wav'', Data ''abc''), (''..'', Data ''x''), (''manifest.json'', Data ''{}'')] arc
           (path_join [''b'', ''soundbank_s''] (path_name (Path arc))) fsp
          = Inl (OSError,
           [[''in.soundbank''] \<mapsto> File ''PK'' 2024, [''b''] \<mapsto> Dir 2024,
            [''b'', ''soundbank_s''] \<mapsto> Dir 2024,
            [''b'', ''soundbank_s'', ''a.wav''] \<mapsto> File ''abc'' 2024]))
   \<and> import_soundbank
        \<lparr>lower = ascii_lower, dumps = (\<lambda>j. ''{}''), loads = (\<lambda>raw. Inr (JObj [(''version'', JInt 1), (''cues'', JObj [(''over'', JStr ''over.wav'')])])),
          zip_stream = (\<lambda>z. ''PK''), zip_close = (\<lambda>z. ''PK''), zip_abort = (\<lambda>z. []),
          zip_open = (\<lambda>b. Inr [(''manifest.json'', Data ''{}'')]),
          io_error = (\<lambda>op fs p. None)\<rparr>
        ''s'' 2024 [''in.soundbank'']
        (soundbank_init [''b''], [[''in.soundbank''] \<mapsto> File ''PK'' 2024])
      = Inr (soundbank_init [''b''],
           [[''in.soundbank''] \<mapsto> File ''PK'' 2024, [''b''] \<mapsto> Dir 2024,
            [''b'', ''soundbank_s''] \<mapsto> Dir 2024])"
proof -
  let ?st = "(soundbank_init [''b''], [[''in.soundbank''] \<mapsto> File ''PK'' 2024])"
  let ?h1 = "\<lparr>lower = ascii_lower, dumps = (\<lambda>j. ''{}''), loads = (\<lambda>raw. Inl ValueError),
          zip_stream = (\<lambda>z. ''PK''), zip_close = (\<lambda>z. ''PK''), zip_abort = (\<lambda>z. []),
          zip_open = (\<lambda>b. Inr [(''over.wav'', Data ''abc'')]),
          io_error = (\<lambda>op fs p. None)\<rparr>"
  let ?h2 = "\<lparr>lower = ascii_lower, dumps = (\<lambda>j. ''{}''), loads = (\<lambda>raw. Inl ValueError),
          zip_stream = (\<lambda>z. ''PK''), zip_close = (\<lambda>z. ''PK''), zip_abort = (\<lambda>z. []),
          zip_open = (\<lambda>b. Inr [(''manifest.json'', Data ''{'')]),
          io_error = (\<lambda>op fs p. None)\<rparr>"
  let ?h3 = "\<lparr>lower = ascii_lower, dumps = (\<lambda>j. ''{}''), loads = (\<lambda>raw. Inr (JArr [])),
          zip_stream = (\<lambda>z. ''PK''), zip_close = (\<lambda>z. ''PK''), zip_abort = (\<lambda>z. []),
          zip_open = (\<lambda>b. Inr [(''manifest.json'', Data ''[]'')]),
          io_error = (\<lambda>op fs p. None)\<rparr>"
  let ?h4 = "\<lparr>lower = ascii_lower, dumps = (\<lambda>j. ''{}''), loads = (\<lambda>raw. Inr (JObj [(''cues'', JObj [(''session_start'', JStr ''a.wav''), (''over'', JStr ''..'')])])),
          zip_stream = (\<lambda>z. ''PK''), zip_close = (\<lambda>z. ''PK''), zip_abort = (\<lambda>z. []),
          zip_open = (\<lambda>b. Inr [(''a.wav'', Data ''abc''), (''..'', Data ''x''), (''manifest.json'', Data ''{}'')]),
          io_error = (\<lambda>op fs p. None)\<rparr>"
  let ?h5 = "\<lparr>lower = ascii_lower, dumps = (\<lambda>j. ''{}''), loads = (\<lambda>raw. Inr (JObj [(''version'', JInt 1), (''cues'', JObj [(''over'', JStr ''over.wav'')])])),
          zip_stream = (\<lambda>z. ''PK''), zip_close = (\<lambda>z. ''PK''), zip_abort = (\<lambda>z. []),
          zip_open = (\<lambda>b. Inr [(''manifest.json'', Data ''{}'')]),
          io_error = (\<lambda>op fs p. None)\<rparr>"
  let ?fs1 = "[[''in.soundbank''] \<mapsto> File ''PK'' 2024, [''b''] \<mapsto> Dir 2024,
            [''b'', ''soundbank_s''] \<mapsto> Dir 2024]"
  let ?fs4 = "[[''in.soundbank''] \<mapsto> File ''PK'' 2024, [''b''] \<mapsto> Dir 2024,
            [''b'', ''soundbank_s''] \<mapsto> Dir 2024,
            [''b'', ''soundbank_s'', ''a.wav''] \<mapsto> File ''abc'' 2024]"
  let ?sb4 = "(set_cue_file
           [[''in.soundbank''] \<mapsto> File ''PK'' 2024, [''b''] \<mapsto> Dir 2024,
            [''b'', ''soundbank_s''] \<mapsto> Dir 2024,
            [''b'', ''soundbank_s'', ''a.wav''] \<mapsto> File ''abc'' 2024]
           (soundbank_init [''b'']) ''session_start'' (Some [''b'', ''soundbank_s'', ''a.wav'']))"
  have td: "path_join (base_dir (fst ?st)) (''soundbank_'' @ ''s'') = [''b'', ''soundbank_s'']"
    by (simp add: path_join_def soundbank_init_def)
  have md: "make_dirs h 2024 [[''in.soundbank''] \<mapsto> File ''PK'' 2024] [''b'', ''soundbank_s'']
              = Inr ?fs1"
    if "io_error h = (\<lambda>op fs p. None)" for h :: host
    using that by (simp add: make_dirs_def ancestors_def is_file_def upt_rec)
  have n1: "''manifest.json'' \<notin> set (namelist [(''over.wav'', Data ''abc'')])"
    by (simp add: namelist_def)
  have o1: "open_zip ?h1 (snd ?st) [''in.soundbank''] = Inr [(''over.wav'', Data ''abc'')]"
    by (simp add: open_zip_def)
  have a: "import_soundbank ?h1 ''s'' 2024 [''in.soundbank''] ?st = Inl (KeyError, ?st)"
    using import_soundbank_outcomes[of ?h1 ?st "[''in.soundbank'']" "''s''" 2024,
        THEN conjunct2, THEN conjunct1, rule_format, of "[(''over.wav'', Data ''abc'')]"] o1 n1
    by simp
  have o2: "open_zip ?h2 (snd ?st) [''in.soundbank''] = Inr [(''manifest.json'', Data ''{'')]"
    by (simp add: open_zip_def)
  have r2: "zip_read [(''manifest.json'', Data ''{'')] ''manifest.json'' = Inr ''{''"
    by (simp add: zip_read_def getinfo_def)
  have b: "import_soundbank ?h2 ''s'' 2024 [''in.soundbank''] ?st = Inl (ValueError, ?st)"
    using import_soundbank_outcomes[of ?h2 ?st "[''in.soundbank'']" "''s''" 2024,
        THEN conjunct2, THEN conjunct2, THEN conjunct1, rule_format,
        of "[(''manifest.json'', Data ''{'')]" "''{''" ValueError] o2 r2
    by simp
  have o3: "open_zip ?h3 (snd ?st) [''in.soundbank''] = Inr [(''manifest.json'', Data ''[]'')]"
    by (simp add: open_zip_def)
  have r3: "zip_read [(''manifest.json'', Data ''[]'')] ''manifest.json'' = Inr ''[]''"
    by (simp add: zip_read_def getinfo_def)
  have c: "import_soundbank ?h3 ''s'' 2024 [''in.soundbank''] ?st = Inl (AttributeError, ?st)"
    using import_soundbank_outcomes[of ?h3 ?st "[''in.soundbank'']" "''s''" 2024,
        THEN conjunct2, THEN conjunct2, THEN conjunct2, THEN conjunct1, rule_format,
        of "[(''manifest.json'', Data ''[]'')]" "''[]''" "JArr []"] o3 r3
    by simp
  have o4: "open_zip ?h4 (snd ?st) [''in.soundbank''] = Inr [(''a.wav'', Data ''abc''), (''..'', Data ''x''), (''manifest.json'', Data ''{}'')]"
    by (simp add: open_zip_def)
  have r4: "zip_read [(''a.wav'', Data ''abc''), (''..'', Data ''x''), (''manifest.json'', Data ''{}'')] ''manifest.json'' = Inr ''{}''"
    by (simp add: zip_read_def getinfo_def)
  have ev4: "import_soundbank ?h4 ''s'' 2024 [''in.soundbank''] ?st = Inl (OSError, ?sb4, ?fs4)"
    unfolding import_soundbank_def
    by (simp add: open_zip_def r4 md soundbank_init_def path_join_def CUES_def entry_name_def
        namelist_def Path_def path_name_def extract_entry_def getinfo_def open_write_def
        set_cue_file_def Let_def)
  have p4: "open_zip ?h4 (snd ?st) [''in.soundbank''] = Inr [(''a.wav'', Data ''abc''), (''..'', Data ''x''), (''manifest.json'', Data ''{}'')]
        \<and> zip_read [(''a.wav'', Data ''abc''), (''..'', Data ''x''), (''manifest.json'', Data ''{}'')] ''manifest.json'' = Inr ''{}'' \<and> loads ?h4 ''{}'' = Inr (JObj [(''cues'', JObj [(''session_start'', JStr ''a.wav''), (''over'', JStr ''..'')])])
        \<and> json_get (JObj [(''cues'', JObj [(''session_start'', JStr ''a.wav''), (''over'', JStr ''..'')])]) ''cues'' (JObj []) = Inr (JObj [(''session_start'', JStr ''a.wav''), (''over'', JStr ''..'')])
        \<and> make_dirs ?h4 2024 (snd ?st) (path_join (base_dir (fst ?st)) (''soundbank_'' @ ''s''))
            = Inr ?fs1
        \<and> (\<forall>name. path_join (path_join (base_dir (fst ?st)) (''soundbank_'' @ ''s'')) name
              \<noteq> [''in.soundbank''])"
    using o4 r4 md[of ?h4] unfolding td by (simp add: path_join_def)
  note loop = import_soundbank_outcomes[of ?h4 ?st "[''in.soundbank'']" "''s''" 2024,
        THEN conjunct2, THEN conjunct2, THEN conjunct2, THEN conjunct2, THEN conjunct2,
        THEN conjunct2, THEN conjunct2, rule_format,
        of "[(''a.wav'', Data ''abc''), (''..'', Data ''x''), (''manifest.json'', Data ''{}'')]" "''{}''" "JObj [(''cues'', JObj [(''session_start'', JStr ''a.wav''), (''over'', JStr ''..'')])]" "[(''session_start'', JStr ''a.wav''), (''over'', JStr ''..'')]" ?fs1, OF p4]
  have d: "\<exists>pre k n post arc fsp.
         CUES = pre @ (k, n) # post
       \<and> import_cues ?h4 2024 (JObj [(''session_start'', JStr ''a.wav''), (''over'', JStr ''..'')]) [''b'', ''soundbank_s''] [(''a.wav'', Data ''abc''), (''..'', Data ''x''), (''manifest.json'', Data ''{}'')] pre
           (soundbank_init [''b''], ?fs1) = Inr (?sb4, fsp)
       \<and> map_of [(''session_start'', JStr ''a.wav''), (''over'', JStr ''..'')] k = Some (JStr arc)
       \<and> arc \<in> set (namelist [(''a.wav'', Data ''abc''), (''..'', Data ''x''), (''manifest.json'', Data ''{}'')])
       \<and> extract_entry ?h4 2024 [(''a.wav'', Data ''abc''), (''..'', Data ''x''), (''manifest.json'', Data ''{}'')] arc
           (path_join [''b'', ''soundbank_s''] (path_name (Path arc))) fsp
          = Inl (OSError, ?fs4)"
  proof -
    from loop[unfolded td] show ?thesis
    proof
      assume "\<exists>st'. import_soundbank ?h4 ''s'' 2024 [''in.soundbank''] ?st = Inr st'"
      then show ?thesis unfolding ev4 by simp
    next
      assume "\<exists>pre k n post arc e sbp fsp fs'.
            CUES = pre @ (k, n) # post
          \<and> import_cues ?h4 2024 (JObj [(''session_start'', JStr ''a.wav''), (''over'', JStr ''..'')]) [''b'', ''soundbank_s''] [(''a.wav'', Data ''abc''), (''..'', Data ''x''), (''manifest.json'', Data ''{}'')] pre (fst ?st, ?fs1)
              = Inr (sbp, fsp)
          \<and> (\<forall>cue. cue \<notin> fst ` set pre \<longrightarrow> cue_files sbp cue = cue_files (fst ?st) cue)
          \<and> map_of [(''session_start'', JStr ''a.wav''), (''over'', JStr ''..'')] k = Some (JStr arc) \<and> arc \<noteq> [] \<and> arc \<in> set (namelist [(''a.wav'', Data ''abc''), (''..'', Data ''x''), (''manifest.json'', Data ''{}'')])
          \<and> extract_entry ?h4 2024 [(''a.wav'', Data ''abc''), (''..'', Data ''x''), (''manifest.json'', Data ''{}'')] arc
                (path_join [''b'', ''soundbank_s''] (path_name (Path arc))) fsp = Inl (e, fs')
          \<and> import_soundbank ?h4 ''s'' 2024 [''in.soundbank''] ?st = Inl (e, (sbp, fs'))"
      then obtain pre k n post arc e sbp fsp fs' where f:
        "CUES = pre @ (k, n) # post"
        "import_cues ?h4 2024 (JObj [(''session_start'', JStr ''a.wav''), (''over'', JStr ''..'')]) [''b'', ''soundbank_s''] [(''a.wav'', Data ''abc''), (''..'', Data ''x''), (''manifest.json'', Data ''{}'')] pre (fst ?st, ?fs1)
              = Inr (sbp, fsp)"
        "map_of [(''session_start'', JStr ''a.wav''), (''over'', JStr ''..'')] k = Some (JStr arc)" "arc \<in> set (namelist [(''a.wav'', Data ''abc''), (''..'', Data ''x''), (''manifest.json'', Data ''{}'')])"
        "extract_entry ?h4 2024 [(''a.wav'', Data ''abc''), (''..'', Data ''x''), (''manifest.json'', Data ''{}'')] arc
                (path_join [''b'', ''soundbank_s''] (path_name (Path arc))) fsp = Inl (e, fs')"
        "import_soundbank ?h4 ''s'' 2024 [''in.soundbank''] ?st = Inl (e, (sbp, fs'))"
        by (elim exE conjE)
      from f(6) have eq: "e = OSError" "sbp = ?sb4" "fs' = ?fs4" unfolding ev4 by auto
      have 2: "import_cues ?h4 2024 (JObj [(''session_start'', JStr ''a.wav''), (''over'', JStr ''..'')]) [''b'', ''soundbank_s''] [(''a.wav'', Data ''abc''), (''..'', Data ''x''), (''manifest.json'', Data ''{}'')] pre
           (soundbank_init [''b''], ?fs1) = Inr (?sb4, fsp)"
        using f(2) unfolding eq by simp
      have 5: "extract_entry ?h4 2024 [(''a.wav'', Data ''abc''), (''..'', Data ''x''), (''manifest.json'', Data ''{}'')] arc
           (path_join [''b'', ''soundbank_s''] (path_name (Path arc))) fsp
          = Inl (OSError, ?fs4)"
        using f(5) unfolding eq .
      show ?thesis
        by (intro exI[of _ pre] exI[of _ k] exI[of _ n] exI[of _ post] exI[of _ arc]
            exI[of _ fsp] conjI) (rule f(1), rule 2, rule f(3), rule f(4), rule 5)
    qed
  qed
  have o5: "open_zip ?h5 (snd ?st) [''in.soundbank''] = Inr [(''manifest.json'', Data ''{}'')]"
    by (simp add: open_zip_def)
  have r5: "zip_read [(''manifest.json'', Data ''{}'')] ''manifest.json'' = Inr ''{}''"
    by (simp add: zip_read_def getinfo_def)
  have p5: "open_zip ?h5 (snd ?st) [''in.soundbank''] = Inr [(''manifest.json'', Data ''{}'')]
        \<and> zip_read [(''manifest.json'', Data ''{}'')] ''manifest.json'' = Inr ''{}'' \<and> loads ?h5 ''{}'' = Inr (JObj [(''version'', JInt 1), (''cues'', JObj [(''over'', JStr ''over.wav'')])])
        \<and> json_get (JObj [(''version'', JInt 1), (''cues'', JObj [(''over'', JStr ''over.wav'')])]) ''cues'' (JObj []) = Inr (JObj [(''over'', JStr ''over.wav'')])
        \<and> make_dirs ?h5 2024 (snd ?st) (path_join (base_dir (fst ?st)) (''soundbank_'' @ ''s''))
            = Inr ?fs1
        \<and> (\<forall>cue \<in> set (map fst CUES). \<forall>arc.
               map_of [(''over'', JStr ''over.wav'')] cue = Some (JStr arc) \<longrightarrow> arc \<notin> set (namelist [(''manifest.json'', Data ''{}'')]))"
    using o5 r5 md[of ?h5] unfolding td by (simp add: namelist_def)
  have e: "import_soundbank ?h5 ''s'' 2024 [''in.soundbank''] ?st = Inr (soundbank_init [''b''], ?fs1)"
    using import_soundbank_outcomes[of ?h5 ?st "[''in.soundbank'']" "''s''" 2024,
        THEN conjunct2, THEN conjunct2, THEN conjunct2, THEN conjunct2, THEN conjunct2,
        THEN conjunct2, THEN conjunct1, rule_format,
        of "[(''manifest.json'', Data ''{}'')]" "''{}''" "JObj [(''version'', JInt 1), (''cues'', JObj [(''over'', JStr ''over.wav'')])]" "[(''over'', JStr ''over.wav'')]" ?fs1, OF p5]
    by simp
  show ?thesis using n1 a b c ev4 d e by (intro conjI)
qed

text \<open>
  The claim as the specification states it fails: a manifest that references a file
  name that is not in the container, and a manifest without a \<^verbatim>\<open>cues\<close> mapping, are
  both imported without an error; the target directory is created and the bank is
  left as it was.
\<close>

theorem import_soundbank_counterexample:
  "''over.wav'' \<notin> set (namelist [(''manifest.json'', Data ''{}'')])
   \<and> import_soundbank
        \<lparr>lower = ascii_lower, dumps = (\<lambda>j. ''{}''), loads = (\<lambda>raw. Inr (JObj [(''version'', JInt 1), (''cues'', JObj [(''over'', JStr ''over.wav'')])])),
          zip_stream = (\<lambda>z. ''PK''), zip_close = (\<lambda>z. ''PK''), zip_abort = (\<lambda>z. []),
          zip_open = (\<lambda>b. Inr [(''manifest.json'', Data ''{}'')]),
          io_error = (\<lambda>op fs p. None)\<rparr>
        ''s'' 2024 [''in.soundbank'']
        (soundbank_init [''b''], [[''in.soundbank''] \<mapsto> File ''PK'' 2024])
      = Inr (soundbank_init [''b''],
           [[''in.soundbank''] \<mapsto> File ''PK'' 2024, [''b''] \<mapsto> Dir 2024,
            [''b'', ''soundbank_s''] \<mapsto> Dir 2024])
   \<and> import_soundbank
        \<lparr>lower = ascii_lower, dumps = (\<lambda>j. ''{}''), loads = (\<lambda>raw. Inr (JObj [(''version'', JInt 1)])),
          zip_stream = (\<lambda>z. ''PK''), zip_close = (\<lambda>z. ''PK''), zip_abort = (\<lambda>z. []),
          zip_open = (\<lambda>b. Inr [(''manifest.json'', Data ''{}'')]),
          io_error = (\<lambda>op fs p. None)\<rparr>
        ''s'' 2024 [''in.soundbank'']
        (soundbank_init [''b''], [[''in.soundbank''] \<mapsto> File ''PK'' 2024])
      = Inr (soundbank_init [''b''],
           [[''in.soundbank''] \<mapsto> File ''PK'' 2024, [''b''] \<mapsto> Dir 2024,
            [''b'', ''soundbank_s''] \<mapsto> Dir 2024])"
  by (simp add: import_soundbank_def open_zip_def zip_read_def getinfo_def make_dirs_def
      ancestors_def is_file_def upt_rec soundbank_init_def path_join_def CUES_def
      entry_name_def namelist_def Let_def)


end
